theory Spec2Isabelle
  imports Main "HOL-Library.Sublist"
begin

section \<open>Thrown values, outcomes and the process environment\<close>

text \<open>
  A JavaScript \<^verbatim>\<open>throw\<close> may carry any value. The handlers only ever ask two
  questions of a caught value: is it an instance of \<^verbatim>\<open>Error\<close> (then it has a
  \<^verbatim>\<open>message\<close>), and is it an instance of \<^verbatim>\<open>ValidationError\<close> (a subclass of
  \<^verbatim>\<open>Error\<close> declared in validation/schemas). The other kinds are the
  subclasses of \<^verbatim>\<open>Error\<close> that the error taxonomy of the specification (section 7)
  names; the code under study treats all of them alike.
\<close>

datatype error_kind =
  GenericError | ValidationError | NotFoundError | HelperExecutionError
  | TimeoutError | UntrustedBinaryError

datatype thrown = ErrorObject error_kind string | NonError

text \<open>A computation either returns a value or throws; a rejected promise is a throw.\<close>

datatype 'a outcome = Return 'a | Throw thrown

text \<open>The two variables of \<^verbatim>\<open>process.env\<close> that are read; an unset one is \<open>None\<close>.\<close>

record env =
  NODE_ENV :: "string option"
  DEBUG :: "string option"

text \<open>Truthiness of an optional string: \<^verbatim>\<open>undefined\<close> and the empty string are falsy.\<close>

definition truthy :: "string option \<Rightarrow> bool" where
  "truthy v = (case v of None \<Rightarrow> False | Some s \<Rightarrow> s \<noteq> [])"

text \<open>Interpolation of an optional string into a template literal.\<close>

definition interpolate :: "string option \<Rightarrow> string" where
  "interpolate v = (case v of None \<Rightarrow> ''undefined'' | Some s \<Rightarrow> s)"

text \<open>
  A tool call's arguments are an object whose properties hold strings and booleans; a
  property that is not there reads as \<^verbatim>\<open>undefined\<close>, here \<open>None\<close>.
\<close>

datatype jsval = JString string | JBoolean bool

type_synonym jsobject = "string \<rightharpoonup> jsval"

definition jsTruthy :: "jsval option \<Rightarrow> bool" where
  "jsTruthy v =
     (case v of None \<Rightarrow> False | Some (JString s) \<Rightarrow> s \<noteq> [] | Some (JBoolean b) \<Rightarrow> b)"

definition jsToString :: "jsval option \<Rightarrow> string" where
  "jsToString v =
     (case v of None \<Rightarrow> ''undefined'' | Some (JString s) \<Rightarrow> s
      | Some (JBoolean b) \<Rightarrow> (if b then ''true'' else ''false''))"

text \<open>\<^verbatim>\<open>Array.prototype.join\<close> on an array of strings.\<close>

fun join :: "string \<Rightarrow> string list \<Rightarrow> string" where
  "join sep [] = []"
| "join sep [x] = x"
| "join sep (x # y # ys) = x @ sep @ join sep (y # ys)"

definition newline :: string where
  "newline = [CHR 0x0A]"

definition dquote :: string where
  "dquote = [CHR 0x22]"

text \<open>The decimal rendering of a length, as a template literal prints a number.\<close>

definition digit :: "nat \<Rightarrow> char" where
  "digit d = ''0123456789'' ! (d mod 10)"

function numberToString :: "nat \<Rightarrow> string" where
  "numberToString n =
     (if n < 10 then [digit n] else numberToString (n div 10) @ [digit (n mod 10)])"
  by pat_completeness auto
termination
  by (relation "measure (\<lambda>n. n)") auto

section \<open>utils/errorHandling\<close>

text \<open>One item of \<^verbatim>\<open>content\<close>: \<^verbatim>\<open>{ type, text }\<close>.\<close>

record text_content =
  content_type :: string
  content_text :: string

record CallToolResult =
  content :: "text_content list"
  isError :: bool

definition instanceofValidationError :: "thrown \<Rightarrow> bool" where
  "instanceofValidationError error =
     (case error of ErrorObject k m \<Rightarrow> k = ValidationError | NonError \<Rightarrow> False)"

text \<open>The local \<^verbatim>\<open>message\<close> of \<^verbatim>\<open>createErrorMessage\<close>.\<close>

definition errorMessage :: "thrown \<Rightarrow> string" where
  "errorMessage error =
     (case error of ErrorObject k m \<Rightarrow> m | NonError \<Rightarrow> ''System error occurred'')"

definition isDev :: "env \<Rightarrow> bool" where
  "isDev e = (NODE_ENV e = Some ''development'' \<or> truthy (DEBUG e))"

definition createErrorMessage :: "env \<Rightarrow> string \<Rightarrow> thrown \<Rightarrow> string" where
  "createErrorMessage e operation error =
     (let message = errorMessage error in
      if instanceofValidationError error then message
      else if isDev e then ''Failed to '' @ operation @ '': '' @ message
      else ''Failed to '' @ operation @ '': System error occurred'')"

text \<open>
  An asynchronous operation runs against the outside world (the reminders store behind
  the helper binary), here a state of type \<open>'w\<close> that is passed through.
\<close>

type_synonym ('a, 'w) async = "'w \<Rightarrow> 'a outcome \<times> 'w"

text \<open>\<^verbatim>\<open>const x = await m; ...\<close>: a rejection of \<open>m\<close> ends the enclosing function.\<close>

definition await :: "('a, 'w) async \<Rightarrow> ('a \<Rightarrow> ('b, 'w) async) \<Rightarrow> ('b, 'w) async" where
  "await m f w = (case m w of (Return x, w') \<Rightarrow> f x w' | (Throw error, w') \<Rightarrow> (Throw error, w'))"

text \<open>A synchronous step inside an async function: its throw rejects the promise.\<close>

definition settled :: "'a outcome \<Rightarrow> ('a, 'w) async" where
  "settled r w = (r, w)"

definition handleAsyncOperation ::
  "env \<Rightarrow> (string, 'w) async \<Rightarrow> string \<Rightarrow> (CallToolResult, 'w) async" where
  "handleAsyncOperation e operation operationName w =
     (case operation w of
        (Return result, w') \<Rightarrow>
          (Return \<lparr>content = [\<lparr>content_type = ''text'', content_text = result\<rparr>], isError = False\<rparr>, w')
      | (Throw error, w') \<Rightarrow>
          (Return \<lparr>content = [\<lparr>content_type = ''text'', content_text = createErrorMessage e operationName error\<rparr>],
                   isError = True\<rparr>, w'))"

section \<open>tools/handlers/shared\<close>

text \<open>
  The schemas of validation/schemas that the reminder handlers pass on, by name. What
  \<^verbatim>\<open>validateInput\<close> does with them is not part of these modules, so the handlers
  take it as an argument.
\<close>

datatype schema =
  CreateReminderSchema | UpdateReminderSchema | DeleteReminderSchema | ReadRemindersSchema

type_synonym validator = "schema \<Rightarrow> jsobject \<Rightarrow> jsobject outcome"

definition extractAndValidateArgs :: "validator \<Rightarrow> jsobject option \<Rightarrow> schema \<Rightarrow> jsobject outcome" where
  "extractAndValidateArgs validateInput args schema =
     (let rest = (case args of None \<Rightarrow> Map.empty | Some a \<Rightarrow> a)(''action'' := None)
      in validateInput schema rest)"

definition formatListMarkdown ::
  "string \<Rightarrow> 'a list \<Rightarrow> ('a \<Rightarrow> string list) \<Rightarrow> string \<Rightarrow> string" where
  "formatListMarkdown title items formatItem emptyMessage =
     (let lines = [''### '' @ title @ '' (Total: '' @ numberToString (length items) @ '')'', ''''];
          lines = (if length items = 0 then lines @ [emptyMessage]
                   else foldl (\<lambda>lines item. lines @ formatItem item) lines items)
      in join newline lines)"

definition formatSuccessMessage :: "string \<Rightarrow> string \<Rightarrow> string \<Rightarrow> string \<Rightarrow> string" where
  "formatSuccessMessage action itemType title ident =
     (let actionText = (if action = ''created'' then ''created'' else ''updated'');
          prefix = (if action = ''updated'' \<and> itemType = ''list''
                    then ''Successfully updated '' @ itemType @ '' to''
                    else ''Successfully '' @ actionText @ '' '' @ itemType)
      in prefix @ '' '' @ dquote @ title @ dquote @ ''.'' @ newline @ ''- ID: '' @ ident)"

text \<open>The options object of \<^verbatim>\<open>formatDeleteMessage\<close>; an option left out is \<open>None\<close>.\<close>

record delete_options =
  useQuotes :: "bool option"
  useIdPrefix :: "bool option"
  usePeriod :: "bool option"
  useColon :: "bool option"

definition orDefault :: "bool option \<Rightarrow> bool \<Rightarrow> bool" where
  "orDefault v d = (case v of None \<Rightarrow> d | Some b \<Rightarrow> b)"

definition formatDeleteMessage :: "string \<Rightarrow> string \<Rightarrow> delete_options \<Rightarrow> string" where
  "formatDeleteMessage itemType identifier options =
     (let formattedId = (if orDefault (useQuotes options) True
                         then dquote @ identifier @ dquote else identifier);
          idPart = (if orDefault (useIdPrefix options) True
                    then (let separator = (if orDefault (useColon options) True then '': '' else '' '')
                          in ''with ID'' @ separator @ formattedId)
                    else formattedId);
          period = (if orDefault (usePeriod options) True then ''.'' else '''')
      in ''Successfully deleted '' @ itemType @ '' '' @ idPart @ period)"

section \<open>tools/handlers/reminderHandlers\<close>

record reminder =
  r_title :: string
  r_isCompleted :: bool
  r_list :: "string option"
  r_id :: "string option"
  r_notes :: "string option"
  r_dueDate :: "string option"
  r_url :: "string option"

text \<open>
  \<^verbatim>\<open>formatMultilineNotes\<close> comes from utils/helpers; the formatter takes it as its
  first argument.
\<close>

definition formatReminderMarkdown :: "(string \<Rightarrow> string) \<Rightarrow> reminder \<Rightarrow> string list" where
  "formatReminderMarkdown formatMultilineNotes reminder =
     (let checkbox = (if r_isCompleted reminder then ''[x]'' else ''[ ]'');
          lines = [''- '' @ checkbox @ '' '' @ r_title reminder];
          lines = (if truthy (r_list reminder)
                   then lines @ [''  - List: '' @ interpolate (r_list reminder)] else lines);
          lines = (if truthy (r_id reminder)
                   then lines @ [''  - ID: '' @ interpolate (r_id reminder)] else lines);
          lines = (if truthy (r_notes reminder)
                   then lines @ [''  - Notes: '' @ formatMultilineNotes (interpolate (r_notes reminder))]
                   else lines);
          lines = (if truthy (r_dueDate reminder)
                   then lines @ [''  - Due: '' @ interpolate (r_dueDate reminder)] else lines);
          lines = (if truthy (r_url reminder)
                   then lines @ [''  - URL: '' @ interpolate (r_url reminder)] else lines)
      in lines)"

text \<open>
  The handlers reach the reminders store through \<^verbatim>\<open>reminderRepository\<close>
  (utils/reminderRepository). Each handler takes the repository methods it calls as
  arguments, after \<^verbatim>\<open>validateInput\<close>.
\<close>

definition handleCreateReminder ::
  "validator \<Rightarrow> (jsobject \<Rightarrow> (reminder, 'w) async) \<Rightarrow> env \<Rightarrow> jsobject
     \<Rightarrow> (CallToolResult, 'w) async" where
  "handleCreateReminder validateInput createReminder e args =
     handleAsyncOperation e
       (await (settled (extractAndValidateArgs validateInput (Some args) CreateReminderSchema))
          (\<lambda>validatedArgs.
        await (createReminder
                 (Map.empty(''title'' := validatedArgs ''title'',
                            ''notes'' := validatedArgs ''note'',
                            ''url'' := validatedArgs ''url'',
                            ''list'' := validatedArgs ''targetList'',
                            ''dueDate'' := validatedArgs ''dueDate'')))
          (\<lambda>reminder.
        settled (Return (formatSuccessMessage ''created'' ''reminder''
                           (r_title reminder) (interpolate (r_id reminder)))))))
       ''create reminder''"

definition handleUpdateReminder ::
  "validator \<Rightarrow> (jsobject \<Rightarrow> (reminder, 'w) async) \<Rightarrow> env \<Rightarrow> jsobject
     \<Rightarrow> (CallToolResult, 'w) async" where
  "handleUpdateReminder validateInput updateReminder e args =
     handleAsyncOperation e
       (await (settled (extractAndValidateArgs validateInput (Some args) UpdateReminderSchema))
          (\<lambda>validatedArgs.
        await (updateReminder
                 (Map.empty(''id'' := validatedArgs ''id'',
                            ''newTitle'' := validatedArgs ''title'',
                            ''notes'' := validatedArgs ''note'',
                            ''url'' := validatedArgs ''url'',
                            ''isCompleted'' := validatedArgs ''completed'',
                            ''list'' := validatedArgs ''targetList'',
                            ''dueDate'' := validatedArgs ''dueDate'')))
          (\<lambda>reminder.
        settled (Return (formatSuccessMessage ''updated'' ''reminder''
                           (r_title reminder) (interpolate (r_id reminder)))))))
       ''update reminder''"

definition handleDeleteReminder ::
  "validator \<Rightarrow> (jsval option \<Rightarrow> (unit, 'w) async) \<Rightarrow> env \<Rightarrow> jsobject
     \<Rightarrow> (CallToolResult, 'w) async" where
  "handleDeleteReminder validateInput deleteReminder e args =
     handleAsyncOperation e
       (await (settled (extractAndValidateArgs validateInput (Some args) DeleteReminderSchema))
          (\<lambda>validatedArgs.
        await (deleteReminder (validatedArgs ''id''))
          (\<lambda>_.
        settled (Return (formatDeleteMessage ''reminder'' (jsToString (validatedArgs ''id''))
                           \<lparr>useQuotes = Some False, useIdPrefix = Some True,
                            usePeriod = Some False, useColon = None\<rparr>)))))
       ''delete reminder''"

definition handleReadReminders ::
  "validator \<Rightarrow> (jsval option \<Rightarrow> (reminder, 'w) async) \<Rightarrow> (jsobject \<Rightarrow> (reminder list, 'w) async)
     \<Rightarrow> (string \<Rightarrow> string) \<Rightarrow> env \<Rightarrow> jsobject \<Rightarrow> (CallToolResult, 'w) async" where
  "handleReadReminders validateInput findReminderById findReminders formatMultilineNotes e args =
     handleAsyncOperation e
       (await (settled (extractAndValidateArgs validateInput (Some args) ReadRemindersSchema))
          (\<lambda>validatedArgs.
        if jsTruthy (args ''id'') then
          await (findReminderById (args ''id''))
            (\<lambda>reminder.
          settled (Return (join newline
                     ([''### Reminder'', ''''] @ formatReminderMarkdown formatMultilineNotes reminder))))
        else
          await (findReminders
                   (Map.empty(''list'' := validatedArgs ''filterList'',
                              ''showCompleted'' := validatedArgs ''showCompleted'',
                              ''search'' := validatedArgs ''search'',
                              ''dueWithin'' := validatedArgs ''dueWithin'')))
            (\<lambda>reminders.
          settled (Return (formatListMarkdown ''Reminders'' reminders
                             (formatReminderMarkdown formatMultilineNotes)
                             ''No reminders found matching the criteria.'')))))
       ''read reminders''"

section \<open>validation/schemas, as the specification describes it\<close>

text \<open>
  \<^verbatim>\<open>validateInput\<close> and the reminder schemas of validation/schemas are not among the
  source files. Where a claim is about what validation itself does, the definitions of
  this section stand in for them; they follow section 4.1 of the specification.
\<close>

text \<open>
  Modelled from the spec: the required fields of the reminder schemas (not among the
  source files). "create (title required; notes, url, list, dueDate optional), update
  (id required, all others optional), delete (id required), read (all fields optional)".
\<close>

definition requiredFields :: "schema \<Rightarrow> string list" where
  "requiredFields schema =
     (case schema of
        CreateReminderSchema \<Rightarrow> [''title'']
      | UpdateReminderSchema \<Rightarrow> [''id'']
      | DeleteReminderSchema \<Rightarrow> [''id'']
      | ReadRemindersSchema \<Rightarrow> [])"

text \<open>
  Modelled from the spec: the issues that \<^verbatim>\<open>validateInput\<close> (not among the source
  files) raises for required fields that are missing, each a field and a reason.
\<close>

definition missingFields :: "schema \<Rightarrow> jsobject \<Rightarrow> (string \<times> string) list" where
  "missingFields schema input =
     map (\<lambda>field. (field, ''Required'')) (filter (\<lambda>field. input field = None) (requiredFields schema))"

text \<open>
  Modelled from the spec: how the message of a \<^verbatim>\<open>ValidationError\<close> (declared in
  validation/schemas, not among the source files) names the field and the reason.
\<close>

definition issueText :: "string \<times> string \<Rightarrow> string" where
  "issueText issue = fst issue @ '': '' @ snd issue"

text \<open>
  Modelled from the spec: \<^verbatim>\<open>validateInput\<close> (not among the source files). It "fails
  with ValidationError{field, reason} when a required field is missing, has the wrong
  type, or fails a format check". The specification leaves the type and format checks
  open; they are the parameter \<open>otherChecks\<close>. Every issue found is reported in the
  message.
\<close>

definition specValidateInput :: "(schema \<Rightarrow> jsobject \<Rightarrow> (string \<times> string) list) \<Rightarrow> validator" where
  "specValidateInput otherChecks schema input =
     (let issues = missingFields schema input @ otherChecks schema input
      in if issues = [] then Return input
         else Throw (ErrorObject ValidationError (join ''; '' (map issueText issues))))"

section \<open>The helper binary, as the specification describes it\<close>

text \<open>
  utils/binaryValidator, utils/cliExecutor and utils/reminderRepository are not among
  the source files. Where a claim is about the helper's invocation, the definitions of
  this section stand in for them; they follow sections 3, 4.2, 4.3 and 4.4 of the
  specification. The file system (symlink resolution, content hashes), the helper's
  behaviour and the grammar of its output are parameters. What a call does is recorded
  as a list of events.
\<close>

text \<open>
  Modelled from the spec: the subcommand vocabulary of the helper (utils/cliExecutor is
  not among the source files), here the four reminder subcommands.
\<close>

datatype subcommand = CreateReminderCmd | ReadReminderCmd | UpdateReminderCmd | DeleteReminderCmd

text \<open>
  Modelled from the spec: \<^verbatim>\<open>CommandInvocation\<close> (not among the source files),
  "{ command: enum of known subcommands, arguments: ordered sequence of strings }".
\<close>

record CommandInvocation =
  command :: subcommand
  arguments :: "string list"

text \<open>
  Modelled from the spec: the two observable steps of a helper call (utils/cliExecutor
  is not among the source files): an argument list has been built, and a subprocess has
  been spawned at a path with an argument list.
\<close>

datatype event = ArgumentsBuilt CommandInvocation | Spawned string CommandInvocation

text \<open>
  Modelled from the spec: how the helper process ends (utils/cliExecutor is not among
  the source files): with stdout, stderr and an exit code, or killed on timeout.
\<close>

datatype process_end = Exited string string int | TimedOut

text \<open>
  Modelled from the spec: the configuration of the trusted binary (utils/binaryValidator
  is not among the source files): the configured path, the allow-listed directory, the
  production posture and the pinned hash.
\<close>

record binary_config =
  configuredPath :: string
  allowedDirectory :: string
  production :: bool
  expectedHash :: string

text \<open>Modelled from the spec: "the configured path is not absolute" (utils/binaryValidator is
  not among the source files).\<close>

definition isAbsolute :: "string \<Rightarrow> bool" where
  "isAbsolute path = prefix ''/'' path"

text \<open>Modelled from the spec: a path lies in the allow-listed directory
  (utils/binaryValidator is not among the source files).\<close>

definition insideDirectory :: "string \<Rightarrow> string \<Rightarrow> bool" where
  "insideDirectory directory path = prefix (directory @ ''/'') path"

text \<open>
  Modelled from the spec: \<^verbatim>\<open>resolve\<close> of utils/binaryValidator (not among the source
  files). It "fails with UntrustedBinaryError if: the configured path is not absolute,
  resolves (after following any symlink) outside an allow-listed directory, or - in a
  production posture - its content hash does not match a pinned expected value".
\<close>

definition resolve ::
  "binary_config \<Rightarrow> (string \<Rightarrow> string) \<Rightarrow> (string \<Rightarrow> string) \<Rightarrow> string outcome" where
  "resolve config realpath contentHash =
     (if \<not> isAbsolute (configuredPath config)
      then Throw (ErrorObject UntrustedBinaryError ''helper path is not absolute'')
      else let resolved = realpath (configuredPath config) in
        if \<not> insideDirectory (allowedDirectory config) resolved
        then Throw (ErrorObject UntrustedBinaryError ''helper path resolves outside the allowed directory'')
        else if production config \<and> contentHash resolved \<noteq> expectedHash config
        then Throw (ErrorObject UntrustedBinaryError ''helper hash mismatch'')
        else Return resolved)"

text \<open>
  Modelled from the spec: the adapter's step that builds the command and its argument
  list from a request (utils/reminderRepository is not among the source files).
\<close>

definition buildArguments ::
  "('d \<Rightarrow> CommandInvocation) \<Rightarrow> 'd \<Rightarrow> (CommandInvocation, event list) async" where
  "buildArguments build request events =
     (let invocation = build request in (Return invocation, events @ [ArgumentsBuilt invocation]))"

text \<open>
  Modelled from the spec: \<^verbatim>\<open>invoke\<close> of utils/cliExecutor (not among the source
  files). The argument list is passed as discrete elements; "on timeout, the process is
  killed and a TimeoutError is raised. A non-zero exit code yields a
  HelperExecutionError{stderr}".
\<close>

definition invoke ::
  "(string \<Rightarrow> CommandInvocation \<Rightarrow> process_end) \<Rightarrow> string \<Rightarrow> CommandInvocation
     \<Rightarrow> (string, event list) async" where
  "invoke helper resolvedPath invocation events =
     (case helper resolvedPath invocation of
        TimedOut \<Rightarrow> Throw (ErrorObject TimeoutError ''helper timed out'')
      | Exited stdout stderr exitCode \<Rightarrow>
          if exitCode = 0 then Return stdout else Throw (ErrorObject HelperExecutionError stderr),
      events @ [Spawned resolvedPath invocation])"

text \<open>
  Modelled from the spec: one repository operation (utils/reminderRepository is not
  among the source files). The trust check is "an explicit, eagerly-evaluated
  trust-validation step with a fail-closed default, modeled as a precondition check":
  the path is resolved first, then the argument list is built, the helper is run at the
  resolved path and its output is parsed.
\<close>

definition adapter ::
  "binary_config \<Rightarrow> (string \<Rightarrow> string) \<Rightarrow> (string \<Rightarrow> string)
     \<Rightarrow> (string \<Rightarrow> CommandInvocation \<Rightarrow> process_end)
     \<Rightarrow> ('d \<Rightarrow> CommandInvocation) \<Rightarrow> (string \<Rightarrow> 'r outcome) \<Rightarrow> 'd \<Rightarrow> ('r, event list) async" where
  "adapter config realpath contentHash helper build parse request =
     await (settled (resolve config realpath contentHash)) (\<lambda>resolvedPath.
     await (buildArguments build request) (\<lambda>invocation.
     await (invoke helper resolvedPath invocation) (\<lambda>stdout.
     settled (parse stdout))))"

text \<open>
  Modelled from the spec: an optional field becomes a flag and its value, two discrete
  elements, only when it is present (utils/reminderRepository is not among the source
  files).
\<close>

definition optionalFlag :: "string \<Rightarrow> jsval option \<Rightarrow> string list" where
  "optionalFlag flag v = (case v of None \<Rightarrow> [] | Some x \<Rightarrow> [flag, jsToString (Some x)])"

text \<open>
  Modelled from the spec: the invocation that the repository builds for a create request
  (utils/reminderRepository is not among the source files): the create subcommand with
  \<^verbatim>\<open>--title\<close> and the title, then the optional fields that are present. The
  specification fixes \<^verbatim>\<open>["--title", <title>]\<close>; the other flag names are named
  after their fields.
\<close>

definition buildCreateInvocation :: "jsobject \<Rightarrow> CommandInvocation" where
  "buildCreateInvocation request =
     \<lparr>command = CreateReminderCmd,
      arguments = [''--title'', jsToString (request ''title'')]
        @ optionalFlag ''--notes'' (request ''notes'')
        @ optionalFlag ''--url'' (request ''url'')
        @ optionalFlag ''--list'' (request ''list'')
        @ optionalFlag ''--dueDate'' (request ''dueDate'')\<rparr>"

text \<open>
  Modelled from the spec: \<^verbatim>\<open>reminderRepository.createReminder\<close> (not among the source
  files), the create operation of the repository adapter.
\<close>

definition specCreateReminder ::
  "binary_config \<Rightarrow> (string \<Rightarrow> string) \<Rightarrow> (string \<Rightarrow> string)
     \<Rightarrow> (string \<Rightarrow> CommandInvocation \<Rightarrow> process_end)
     \<Rightarrow> (string \<Rightarrow> reminder outcome) \<Rightarrow> jsobject \<Rightarrow> (reminder, event list) async" where
  "specCreateReminder config realpath contentHash helper parseReminder =
     adapter config realpath contentHash helper buildCreateInvocation parseReminder"

section \<open>Re-reading a rendered reminder\<close>

text \<open>
  The round-trip property of the specification (section 8) speaks of "re-reading the
  rendered text". The source files contain no reader of that text, so the reader of this
  section follows the specification's words and the layout that
  \<^verbatim>\<open>handleReadReminders\<close> and \<^verbatim>\<open>formatReminderMarkdown\<close> write; it is the second
  definition that the formatter of the source is compared with, and no handler uses it.
\<close>

text \<open>
  The lines of a text, as \<^verbatim>\<open>text.split('\n')\<close> gives them: the text is cut at every
  line break, and a text without a line break is one line.
\<close>

fun splitAcc :: "string \<Rightarrow> string \<Rightarrow> string list" where
  "splitAcc current [] = [current]"
| "splitAcc current (c # cs) =
     (if c = CHR 0x0A then current # splitAcc [] cs else splitAcc (current @ [c]) cs)"

definition splitLines :: "string \<Rightarrow> string list" where
  "splitLines t = splitAcc [] t"

text \<open>
  The value of a labelled field: what follows the label on the first line that starts
  with it, if there is such a line.
\<close>

definition readField :: "string \<Rightarrow> string list \<Rightarrow> string option" where
  "readField label lines =
     (case filter (prefix label) lines of
        [] \<Rightarrow> None
      | line # _ \<Rightarrow> Some (drop (length label) line))"

text \<open>
  The reader of the text of a single reminder. The heading and the empty line are
  dropped; the next line gives the checkbox and, after its six characters, the title;
  each optional field is read from its labelled line. A field with no line is read as
  the empty string, the one present value for which \<^verbatim>\<open>formatReminderMarkdown\<close> writes
  no line. The notes are read through \<^verbatim>\<open>unformatNotes\<close>, a parameter that stands for
  the inverse of \<^verbatim>\<open>formatMultilineNotes\<close> (utils/helpers, not among the source files).
  A text with fewer than three lines is not the text of a reminder.
\<close>

definition readReminderText :: "(string \<Rightarrow> string) \<Rightarrow> string \<Rightarrow> reminder option" where
  "readReminderText unformatNotes rendered =
     (case drop 2 (splitLines rendered) of
        [] \<Rightarrow> None
      | titleLine # fieldLines \<Rightarrow>
          Some \<lparr>r_title = drop 6 titleLine,
                r_isCompleted = prefix ''- [x] '' titleLine,
                r_list = Some (case readField ''  - List: '' fieldLines of
                                 None \<Rightarrow> '''' | Some v \<Rightarrow> v),
                r_id = Some (case readField ''  - ID: '' fieldLines of
                               None \<Rightarrow> '''' | Some v \<Rightarrow> v),
                r_notes = Some (case readField ''  - Notes: '' fieldLines of
                                  None \<Rightarrow> '''' | Some v \<Rightarrow> unformatNotes v),
                r_dueDate = Some (case readField ''  - Due: '' fieldLines of
                                    None \<Rightarrow> '''' | Some v \<Rightarrow> v),
                r_url = Some (case readField ''  - URL: '' fieldLines of
                                None \<Rightarrow> '''' | Some v \<Rightarrow> v)\<rparr>)"

section \<open>Auxiliary facts\<close>

declare numberToString.simps [simp del]

lemma join_Cons: "join sep (x # xs) = (if xs = [] then x else x @ sep @ join sep xs)"
  by (cases xs) simp_all

lemma sublist_append_left: "sublist x ys \<Longrightarrow> sublist x (ps @ ys)"
proof -
  assume "sublist x ys"
  then obtain a b where "ys = a @ x @ b"
    unfolding sublist_def by blast
  then have "ps @ ys = (ps @ a) @ x @ b"
    by simp
  then show ?thesis
    unfolding sublist_def by blast
qed

lemma sublist_join: "x \<in> set xs \<Longrightarrow> sublist x (join sep xs)"
proof (induction sep xs rule: join.induct)
  case (1 sep)
  then show ?case by simp
next
  case (2 sep y)
  then show ?case by simp
next
  case (3 sep y z zs)
  show ?case
  proof (cases "x = y")
    case True
    then show ?thesis by simp
  next
    case False
    with 3 have "sublist x (join sep (z # zs))" by simp
    then have "sublist x ((y @ sep) @ join sep (z # zs))"
      by (rule sublist_append_left)
    then show ?thesis by simp
  qed
qed

lemma foldl_push: "foldl (\<lambda>lines item. lines @ f item) acc items = acc @ concat (map f items)"
  by (induction items arbitrary: acc) simp_all

lemma numberToString_small: "n < 10 \<Longrightarrow> numberToString n = [digit n]"
  by (simp add: numberToString.simps)

lemma numberToString_examples:
  "numberToString 0 = ''0''" "numberToString 7 = ''7''"
  "numberToString 42 = ''42''" "numberToString 120 = ''120''"
  by (simp_all add: numberToString.simps [of 42] numberToString.simps [of 120]
      numberToString.simps [of 12] numberToString_small digit_def)

lemma handleAsyncOperation_cases:
  "handleAsyncOperation e operation operationName w =
     (case operation w of
        (Return s, w') \<Rightarrow>
          (Return \<lparr>content = [\<lparr>content_type = ''text'', content_text = s\<rparr>], isError = False\<rparr>, w')
      | (Throw error, w') \<Rightarrow>
          (Return \<lparr>content = [\<lparr>content_type = ''text'',
                                content_text = createErrorMessage e operationName error\<rparr>],
                   isError = True\<rparr>, w'))"
  by (simp add: handleAsyncOperation_def split: prod.splits outcome.splits)

lemma sublist_trans_append: "sublist x y \<Longrightarrow> sublist y z \<Longrightarrow> sublist x z"
proof -
  assume "sublist x y" and "sublist y z"
  then obtain a b c d where "y = a @ x @ b" and "z = c @ y @ d"
    unfolding sublist_def by blast
  then have "z = (c @ a) @ x @ (b @ d)"
    by simp
  then show ?thesis
    unfolding sublist_def by blast
qed

lemma formatReminderMarkdown_append:
  "formatReminderMarkdown formatMultilineNotes reminder =
     [''- '' @ (if r_isCompleted reminder then ''[x]'' else ''[ ]'') @ '' '' @ r_title reminder]
     @ (if truthy (r_list reminder) then [''  - List: '' @ interpolate (r_list reminder)] else [])
     @ (if truthy (r_id reminder) then [''  - ID: '' @ interpolate (r_id reminder)] else [])
     @ (if truthy (r_notes reminder)
        then [''  - Notes: '' @ formatMultilineNotes (interpolate (r_notes reminder))] else [])
     @ (if truthy (r_dueDate reminder) then [''  - Due: '' @ interpolate (r_dueDate reminder)] else [])
     @ (if truthy (r_url reminder) then [''  - URL: '' @ interpolate (r_url reminder)] else [])"
  by (simp add: formatReminderMarkdown_def Let_def)

lemma formatListMarkdown_empty:
  "formatListMarkdown title [] formatItem emptyMessage
     = (''### '' @ title @ '' (Total: 0)'') @ newline @ newline @ emptyMessage"
  by (simp add: formatListMarkdown_def Let_def numberToString_small digit_def)

lemma createErrorMessage_validation:
  "createErrorMessage e operation (ErrorObject ValidationError message) = message"
  by (simp add: createErrorMessage_def instanceofValidationError_def errorMessage_def)

lemma handleReadReminders_rejected:
  "extractAndValidateArgs validateInput (Some args) ReadRemindersSchema = Throw error \<Longrightarrow>
   handleReadReminders validateInput findReminderById findReminders formatMultilineNotes e args w
     = (Return \<lparr>content = [\<lparr>content_type = ''text'',
                             content_text = createErrorMessage e ''read reminders'' error\<rparr>],
                isError = True\<rparr>, w)"
  by (simp add: handleReadReminders_def handleAsyncOperation_cases await_def settled_def)

lemma handleReadReminders_by_id:
  "extractAndValidateArgs validateInput (Some args) ReadRemindersSchema = Return validatedArgs \<Longrightarrow>
   jsTruthy (args ''id'') \<Longrightarrow>
   handleReadReminders validateInput findReminderById findReminders formatMultilineNotes e args w
     = handleAsyncOperation e
         (await (findReminderById (args ''id''))
            (\<lambda>reminder. settled (Return (join newline
               ([''### Reminder'', ''''] @ formatReminderMarkdown formatMultilineNotes reminder)))))
         ''read reminders'' w"
  by (simp add: handleReadReminders_def handleAsyncOperation_def await_def settled_def)

lemma handleReadReminders_by_filter:
  "extractAndValidateArgs validateInput (Some args) ReadRemindersSchema = Return validatedArgs \<Longrightarrow>
   \<not> jsTruthy (args ''id'') \<Longrightarrow>
   handleReadReminders validateInput findReminderById findReminders formatMultilineNotes e args w
     = handleAsyncOperation e
         (await (findReminders
                   (Map.empty(''list'' := validatedArgs ''filterList'',
                              ''showCompleted'' := validatedArgs ''showCompleted'',
                              ''search'' := validatedArgs ''search'',
                              ''dueWithin'' := validatedArgs ''dueWithin'')))
            (\<lambda>reminders. settled (Return (formatListMarkdown ''Reminders'' reminders
                             (formatReminderMarkdown formatMultilineNotes)
                             ''No reminders found matching the criteria.''))))
         ''read reminders'' w"
  by (simp add: handleReadReminders_def handleAsyncOperation_def await_def settled_def)

lemma handleCreateReminder_rejected:
  "extractAndValidateArgs validateInput (Some args) CreateReminderSchema = Throw error \<Longrightarrow>
   handleCreateReminder validateInput createReminder e args w
     = (Return \<lparr>content = [\<lparr>content_type = ''text'',
                             content_text = createErrorMessage e ''create reminder'' error\<rparr>],
                isError = True\<rparr>, w)"
  by (simp add: handleCreateReminder_def handleAsyncOperation_cases await_def settled_def)

lemma handleUpdateReminder_rejected:
  "extractAndValidateArgs validateInput (Some args) UpdateReminderSchema = Throw error \<Longrightarrow>
   handleUpdateReminder validateInput updateReminder e args w
     = (Return \<lparr>content = [\<lparr>content_type = ''text'',
                             content_text = createErrorMessage e ''update reminder'' error\<rparr>],
                isError = True\<rparr>, w)"
  by (simp add: handleUpdateReminder_def handleAsyncOperation_cases await_def settled_def)

lemma handleDeleteReminder_rejected:
  "extractAndValidateArgs validateInput (Some args) DeleteReminderSchema = Throw error \<Longrightarrow>
   handleDeleteReminder validateInput deleteReminder e args w
     = (Return \<lparr>content = [\<lparr>content_type = ''text'',
                             content_text = createErrorMessage e ''delete reminder'' error\<rparr>],
                isError = True\<rparr>, w)"
  by (simp add: handleDeleteReminder_def handleAsyncOperation_cases await_def settled_def)

lemma handleCreateReminder_accepted:
  "extractAndValidateArgs validateInput (Some args) CreateReminderSchema = Return validatedArgs \<Longrightarrow>
   createReminder (Map.empty(''title'' := validatedArgs ''title'',
                             ''notes'' := validatedArgs ''note'',
                             ''url'' := validatedArgs ''url'',
                             ''list'' := validatedArgs ''targetList'',
                             ''dueDate'' := validatedArgs ''dueDate'')) w = (Return reminder, w') \<Longrightarrow>
   handleCreateReminder validateInput createReminder e args w
     = (Return \<lparr>content = [\<lparr>content_type = ''text'',
                             content_text = formatSuccessMessage ''created'' ''reminder''
                                (r_title reminder) (interpolate (r_id reminder))\<rparr>],
                isError = False\<rparr>, w')"
  by (simp add: handleCreateReminder_def handleAsyncOperation_cases await_def settled_def)

lemma formatSuccessMessage_created_reminder:
  "formatSuccessMessage ''created'' ''reminder'' title ident
     = ''Successfully created reminder '' @ dquote @ title @ dquote @ ''.'' @ newline @ ''- ID: '' @ ident"
  by (simp add: formatSuccessMessage_def Let_def)

lemma specValidateInput_missing:
  assumes req: "field \<in> set (requiredFields schema)" and missing: "args field = None"
  shows "\<exists>message. extractAndValidateArgs (specValidateInput otherChecks) (Some args) schema
             = Throw (ErrorObject ValidationError message)
           \<and> sublist field message"
proof -
  define rest where "rest = args(''action'' := None)"
  define issues where "issues = missingFields schema rest @ otherChecks schema rest"
  have "rest field = None"
    using missing by (simp add: rest_def)
  with req have "(field, ''Required'') \<in> set (missingFields schema rest)"
    by (simp add: missingFields_def)
  then have mem: "(field, ''Required'') \<in> set issues"
    by (simp add: issues_def)
  then have ne: "issues \<noteq> []"
    by auto
  from mem have "issueText (field, ''Required'') \<in> set (map issueText issues)"
    by auto
  then have "sublist (issueText (field, ''Required'')) (join ''; '' (map issueText issues))"
    by (rule sublist_join)
  moreover have "sublist field (issueText (field, ''Required''))"
    unfolding issueText_def fst_conv by (rule sublist_append_rightI)
  ultimately have sub: "sublist field (join ''; '' (map issueText issues))"
    by (rule sublist_trans_append [rotated])
  have "extractAndValidateArgs (specValidateInput otherChecks) (Some args) schema
          = (if issues = [] then Return rest
             else Throw (ErrorObject ValidationError (join ''; '' (map issueText issues))))"
    unfolding extractAndValidateArgs_def specValidateInput_def Let_def issues_def rest_def
    by simp
  with ne have "extractAndValidateArgs (specValidateInput otherChecks) (Some args) schema
          = Throw (ErrorObject ValidationError (join ''; '' (map issueText issues)))"
    by simp
  with sub show ?thesis
    by blast
qed

lemma specCreateReminder_success:
  assumes "resolve config realpath contentHash = Return resolvedPath"
    and "helper resolvedPath (buildCreateInvocation request) = Exited stdout stderr 0"
  shows "specCreateReminder config realpath contentHash helper parseReminder request events
     = (parseReminder stdout,
        events @ [ArgumentsBuilt (buildCreateInvocation request),
                  Spawned resolvedPath (buildCreateInvocation request)])"
  using assms
  by (simp add: specCreateReminder_def adapter_def await_def settled_def buildArguments_def invoke_def
      Let_def split: outcome.splits)

lemma adapter_untrusted:
  "resolve config realpath contentHash = Throw error \<Longrightarrow>
   adapter config realpath contentHash helper build parse request events = (Throw error, events)"
  by (simp add: adapter_def await_def settled_def)

lemma adapter_trusted:
  "resolve config realpath contentHash = Return resolvedPath \<Longrightarrow>
   snd (adapter config realpath contentHash helper build parse request events)
     = events @ [ArgumentsBuilt (build request), Spawned resolvedPath (build request)]"
  by (simp add: adapter_def await_def settled_def buildArguments_def invoke_def Let_def
      split: process_end.splits prod.splits outcome.splits)

lemma resolve_Return_trusted:
  "resolve config realpath contentHash = Return resolvedPath \<Longrightarrow>
   isAbsolute (configuredPath config)
   \<and> resolvedPath = realpath (configuredPath config)
   \<and> insideDirectory (allowedDirectory config) resolvedPath
   \<and> (production config \<longrightarrow> contentHash resolvedPath = expectedHash config)"
  by (auto simp: resolve_def Let_def split: if_splits)

lemma resolve_outside:
  "\<not> insideDirectory (allowedDirectory config) (realpath (configuredPath config)) \<Longrightarrow>
   \<exists>message. resolve config realpath contentHash = Throw (ErrorObject UntrustedBinaryError message)"
  by (simp add: resolve_def Let_def)

lemma handleAsyncOperation_total:
  "\<exists>result w' t. handleAsyncOperation e operation operationName w = (Return result, w')
      \<and> content result = [\<lparr>content_type = ''text'', content_text = t\<rparr>]"
  by (auto simp: handleAsyncOperation_cases split: prod.splits outcome.splits)

lemma splitAcc_line:
  "CHR 0x0A \<notin> set l \<Longrightarrow>
   splitAcc current (l @ CHR 0x0A # rest) = (current @ l) # splitAcc [] rest"
  by (induction l arbitrary: current) auto

lemma splitAcc_last: "CHR 0x0A \<notin> set l \<Longrightarrow> splitAcc current l = [current @ l]"
  by (induction l arbitrary: current) auto

lemma splitLines_join:
  assumes "ls \<noteq> []" and "\<forall>l \<in> set ls. CHR 0x0A \<notin> set l"
  shows "splitLines (join newline ls) = ls"
  using assms
proof (induction ls rule: list_nonempty_induct)
  case (single x)
  then show ?case
    by (simp add: splitLines_def splitAcc_last)
next
  case (cons x xs)
  then have "splitLines (join newline xs) = xs" and "CHR 0x0A \<notin> set x"
    by simp_all
  moreover have "join newline (x # xs) = x @ CHR 0x0A # join newline xs"
    using cons.hyps by (simp add: join_Cons newline_def)
  ultimately show ?case
    by (simp add: splitLines_def splitAcc_line)
qed

lemma filter_optional: "filter P (if c then [x] else []) = (if c \<and> P x then [x] else [])"
  by (cases c) simp_all

lemma readReminderText_lines:
  assumes "CHR 0x0A \<notin> set titleLine" and "\<forall>l \<in> set fieldLines. CHR 0x0A \<notin> set l"
  shows "splitLines (join newline ([''### Reminder'', ''''] @ titleLine # fieldLines))
           = [''### Reminder'', ''''] @ titleLine # fieldLines"
proof (rule splitLines_join)
  show "[''### Reminder'', ''''] @ titleLine # fieldLines \<noteq> []"
    by simp
  show "\<forall>l \<in> set ([''### Reminder'', ''''] @ titleLine # fieldLines). CHR 0x0A \<notin> set l"
    using assms by auto
qed

lemma readReminderText_of_lines:
  assumes "CHR 0x0A \<notin> set titleLine" and "\<forall>l \<in> set fieldLines. CHR 0x0A \<notin> set l"
  shows "readReminderText unformatNotes
           (join newline ([''### Reminder'', ''''] @ titleLine # fieldLines))
     = Some \<lparr>r_title = drop 6 titleLine,
              r_isCompleted = prefix ''- [x] '' titleLine,
              r_list = Some (case readField ''  - List: '' fieldLines of
                               None \<Rightarrow> '''' | Some v \<Rightarrow> v),
              r_id = Some (case readField ''  - ID: '' fieldLines of
                             None \<Rightarrow> '''' | Some v \<Rightarrow> v),
              r_notes = Some (case readField ''  - Notes: '' fieldLines of
                                None \<Rightarrow> '''' | Some v \<Rightarrow> unformatNotes v),
              r_dueDate = Some (case readField ''  - Due: '' fieldLines of
                                  None \<Rightarrow> '''' | Some v \<Rightarrow> v),
              r_url = Some (case readField ''  - URL: '' fieldLines of
                              None \<Rightarrow> '''' | Some v \<Rightarrow> v)\<rparr>"
  unfolding readReminderText_def readReminderText_lines [OF assms] by simp

lemma formatReminderMarkdown_all_present:
  "formatReminderMarkdown formatMultilineNotes
       \<lparr>r_title = title, r_isCompleted = isCompleted, r_list = Some list, r_id = Some ident,
        r_notes = Some notes, r_dueDate = Some dueDate, r_url = Some url\<rparr>
     = (''- '' @ (if isCompleted then ''[x]'' else ''[ ]'') @ '' '' @ title)
       # (if list \<noteq> '''' then [''  - List: '' @ list] else [])
       @ (if ident \<noteq> '''' then [''  - ID: '' @ ident] else [])
       @ (if notes \<noteq> '''' then [''  - Notes: '' @ formatMultilineNotes notes] else [])
       @ (if dueDate \<noteq> '''' then [''  - Due: '' @ dueDate] else [])
       @ (if url \<noteq> '''' then [''  - URL: '' @ url] else [])"
  by (simp add: formatReminderMarkdown_append truthy_def interpolate_def)

lemma readReminderText_formatted:
  assumes "CHR 0x0A \<notin> set title" and "CHR 0x0A \<notin> set list" and "CHR 0x0A \<notin> set ident"
    and "notes \<noteq> '''' \<longrightarrow> CHR 0x0A \<notin> set (formatMultilineNotes notes)
           \<and> unformatNotes (formatMultilineNotes notes) = notes"
    and "CHR 0x0A \<notin> set dueDate" and "CHR 0x0A \<notin> set url"
  shows "splitLines (join newline ([''### Reminder'', ''''] @ formatReminderMarkdown formatMultilineNotes
            \<lparr>r_title = title, r_isCompleted = isCompleted, r_list = Some list, r_id = Some ident,
             r_notes = Some notes, r_dueDate = Some dueDate, r_url = Some url\<rparr>))
         = [''### Reminder'', ''''] @ formatReminderMarkdown formatMultilineNotes
            \<lparr>r_title = title, r_isCompleted = isCompleted, r_list = Some list, r_id = Some ident,
             r_notes = Some notes, r_dueDate = Some dueDate, r_url = Some url\<rparr>
    \<and> readReminderText unformatNotes
          (join newline ([''### Reminder'', ''''] @ formatReminderMarkdown formatMultilineNotes
            \<lparr>r_title = title, r_isCompleted = isCompleted, r_list = Some list, r_id = Some ident,
             r_notes = Some notes, r_dueDate = Some dueDate, r_url = Some url\<rparr>))
         = Some \<lparr>r_title = title, r_isCompleted = isCompleted, r_list = Some list, r_id = Some ident,
                 r_notes = Some notes, r_dueDate = Some dueDate, r_url = Some url\<rparr>"
proof -
  let ?r = "\<lparr>r_title = title, r_isCompleted = isCompleted, r_list = Some list, r_id = Some ident,
             r_notes = Some notes, r_dueDate = Some dueDate, r_url = Some url\<rparr>"
  let ?titleLine = "''- '' @ (if isCompleted then ''[x]'' else ''[ ]'') @ '' '' @ title"
  let ?fieldLines = "(if list \<noteq> '''' then [''  - List: '' @ list] else [])
     @ (if ident \<noteq> '''' then [''  - ID: '' @ ident] else [])
     @ (if notes \<noteq> '''' then [''  - Notes: '' @ formatMultilineNotes notes] else [])
     @ (if dueDate \<noteq> '''' then [''  - Due: '' @ dueDate] else [])
     @ (if url \<noteq> '''' then [''  - URL: '' @ url] else [])"
  have fm: "formatReminderMarkdown formatMultilineNotes ?r = ?titleLine # ?fieldLines"
    by (rule formatReminderMarkdown_all_present)
  have t: "CHR 0x0A \<notin> set ?titleLine"
    using assms(1) by simp
  have f: "\<forall>l \<in> set ?fieldLines. CHR 0x0A \<notin> set l"
    using assms(2-6) by (auto split: if_splits)
  have lines: "splitLines (join newline ([''### Reminder'', ''''] @ ?titleLine # ?fieldLines))
           = [''### Reminder'', ''''] @ ?titleLine # ?fieldLines"
    using t f by (rule readReminderText_lines)
  have l: "(case readField ''  - List: '' ?fieldLines of None \<Rightarrow> '''' | Some v \<Rightarrow> v) = list"
    by (simp add: readField_def filter_optional)
  have i: "(case readField ''  - ID: '' ?fieldLines of None \<Rightarrow> '''' | Some v \<Rightarrow> v) = ident"
    by (simp add: readField_def filter_optional)
  have n: "(case readField ''  - Notes: '' ?fieldLines of
              None \<Rightarrow> '''' | Some v \<Rightarrow> unformatNotes v) = notes"
    using assms(4) by (simp add: readField_def filter_optional)
  have d: "(case readField ''  - Due: '' ?fieldLines of None \<Rightarrow> '''' | Some v \<Rightarrow> v) = dueDate"
    by (simp add: readField_def filter_optional)
  have u: "(case readField ''  - URL: '' ?fieldLines of None \<Rightarrow> '''' | Some v \<Rightarrow> v) = url"
    by (simp add: readField_def filter_optional)
  have ti: "drop 6 ?titleLine = title"
    by simp
  have c: "prefix ''- [x] '' ?titleLine = isCompleted"
    by simp
  have "readReminderText unformatNotes
          (join newline ([''### Reminder'', ''''] @ ?titleLine # ?fieldLines)) = Some ?r"
    unfolding readReminderText_of_lines [OF t f, of unformatNotes] l i n d u ti c by (rule refl)
  with lines show ?thesis
    unfolding fm by (rule conjI)
qed

section \<open>Claims\<close>

subsection \<open>C1: every outcome is a uniform result\<close>

text \<open>
  C1. Whatever the wrapped operation does, \<^verbatim>\<open>handleAsyncOperation\<close> resolves to a
  \<^verbatim>\<open>CallToolResult\<close> and never rejects: the result carries exactly one text item;
  when the operation returned a string, \<^verbatim>\<open>isError\<close> is false and the text is that
  string; when the operation threw (in validation, in the repository call or while
  formatting), \<^verbatim>\<open>isError\<close> is true and the text is \<^verbatim>\<open>createErrorMessage\<close> of the
  operation name and the thrown value. The state of the outside world is the one the
  operation left.
\<close>

theorem handleAsyncOperation_uniform_result:
  "(case operation w of
      (Return s, w') \<Rightarrow>
        handleAsyncOperation e operation operationName w =
          (Return \<lparr>content = [\<lparr>content_type = ''text'', content_text = s\<rparr>],
                   isError = False\<rparr>, w')
    | (Throw error, w') \<Rightarrow>
        handleAsyncOperation e operation operationName w =
          (Return \<lparr>content = [\<lparr>content_type = ''text'',
                                content_text = createErrorMessage e operationName error\<rparr>],
                   isError = True\<rparr>, w'))
   \<and> (\<exists>result w' t.
         handleCreateReminder validateInput createReminder e args w = (Return result, w')
         \<and> content result = [\<lparr>content_type = ''text'', content_text = t\<rparr>])
   \<and> (\<exists>result w' t.
         handleUpdateReminder validateInput updateReminder e args w = (Return result, w')
         \<and> content result = [\<lparr>content_type = ''text'', content_text = t\<rparr>])
   \<and> (\<exists>result w' t.
         handleDeleteReminder validateInput deleteReminder e args w = (Return result, w')
         \<and> content result = [\<lparr>content_type = ''text'', content_text = t\<rparr>])
   \<and> (\<exists>result w' t.
         handleReadReminders validateInput findReminderById findReminders formatMultilineNotes e args w
           = (Return result, w')
         \<and> content result = [\<lparr>content_type = ''text'', content_text = t\<rparr>])"
proof (intro conjI)
  show "case operation w of
      (Return s, w') \<Rightarrow>
        handleAsyncOperation e operation operationName w =
          (Return \<lparr>content = [\<lparr>content_type = ''text'', content_text = s\<rparr>],
                   isError = False\<rparr>, w')
    | (Throw error, w') \<Rightarrow>
        handleAsyncOperation e operation operationName w =
          (Return \<lparr>content = [\<lparr>content_type = ''text'',
                                content_text = createErrorMessage e operationName error\<rparr>],
                   isError = True\<rparr>, w')"
    by (simp add: handleAsyncOperation_cases split: prod.splits outcome.splits)
  show "\<exists>result w' t.
         handleCreateReminder validateInput createReminder e args w = (Return result, w')
         \<and> content result = [\<lparr>content_type = ''text'', content_text = t\<rparr>]"
    unfolding handleCreateReminder_def by (rule handleAsyncOperation_total)
  show "\<exists>result w' t.
         handleUpdateReminder validateInput updateReminder e args w = (Return result, w')
         \<and> content result = [\<lparr>content_type = ''text'', content_text = t\<rparr>]"
    unfolding handleUpdateReminder_def by (rule handleAsyncOperation_total)
  show "\<exists>result w' t.
         handleDeleteReminder validateInput deleteReminder e args w = (Return result, w')
         \<and> content result = [\<lparr>content_type = ''text'', content_text = t\<rparr>]"
    unfolding handleDeleteReminder_def by (rule handleAsyncOperation_total)
  show "\<exists>result w' t.
         handleReadReminders validateInput findReminderById findReminders formatMultilineNotes e args w
           = (Return result, w')
         \<and> content result = [\<lparr>content_type = ''text'', content_text = t\<rparr>]"
    unfolding handleReadReminders_def by (rule handleAsyncOperation_total)
qed

theorem handleAsyncOperation_uniform_result_witness:
  "handleAsyncOperation \<lparr>NODE_ENV = None, DEBUG = None\<rparr>
      (settled (Throw (ErrorObject TimeoutError ''helper timed out''))) ''update reminder'' (0::nat)
     = (Return \<lparr>content = [\<lparr>content_type = ''text'',
                             content_text = ''Failed to update reminder: System error occurred''\<rparr>],
                isError = True\<rparr>, 0)
   \<and> handleAsyncOperation \<lparr>NODE_ENV = None, DEBUG = None\<rparr>
      (settled (Return ''done'')) ''update reminder'' (0::nat)
     = (Return \<lparr>content = [\<lparr>content_type = ''text'', content_text = ''done''\<rparr>],
                isError = False\<rparr>, 0)"
proof -
  note a = handleAsyncOperation_uniform_result [where e = "\<lparr>NODE_ENV = None, DEBUG = None\<rparr>"
      and operation = "settled (Throw (ErrorObject TimeoutError ''helper timed out''))"
      and operationName = "''update reminder''" and w = "0::nat", THEN conjunct1]
  note b = handleAsyncOperation_uniform_result [where e = "\<lparr>NODE_ENV = None, DEBUG = None\<rparr>"
      and operation = "settled (Return ''done'')"
      and operationName = "''update reminder''" and w = "0::nat", THEN conjunct1]
  have m: "createErrorMessage \<lparr>NODE_ENV = None, DEBUG = None\<rparr> ''update reminder''
             (ErrorObject TimeoutError ''helper timed out'')
           = ''Failed to update reminder: System error occurred''"
    by (simp add: createErrorMessage_def instanceofValidationError_def isDev_def truthy_def)
  have c1: "handleAsyncOperation \<lparr>NODE_ENV = None, DEBUG = None\<rparr>
      (settled (Throw (ErrorObject TimeoutError ''helper timed out''))) ''update reminder'' (0::nat)
     = (Return \<lparr>content = [\<lparr>content_type = ''text'',
                             content_text = ''Failed to update reminder: System error occurred''\<rparr>],
                isError = True\<rparr>, 0)"
    using a m by (simp add: settled_def)
  have c2: "handleAsyncOperation \<lparr>NODE_ENV = None, DEBUG = None\<rparr>
      (settled (Return ''done'')) ''update reminder'' (0::nat)
     = (Return \<lparr>content = [\<lparr>content_type = ''text'', content_text = ''done''\<rparr>],
                isError = False\<rparr>, 0)"
    using b by (simp add: settled_def)
  show ?thesis
    using c1 c2 by simp
qed

subsection \<open>C2: which errors show their own message\<close>

text \<open>
  C2 (as amended). For every operation name and every caught value: a
  \<^verbatim>\<open>ValidationError\<close> is rendered as its own message, in every environment; any other
  value is rendered as \<^verbatim>\<open>Failed to <operation>: <message>\<close> in development mode
  (\<^verbatim>\<open>NODE_ENV\<close> is \<^verbatim>\<open>development\<close>, or \<^verbatim>\<open>DEBUG\<close> is a non-empty string), and
  otherwise as the fixed text \<^verbatim>\<open>Failed to <operation>: System error occurred\<close>, which
  depends on the operation name alone. So the error's message is shown whenever the
  error is a \<^verbatim>\<open>ValidationError\<close> or the process is in development mode; in production
  the text of another error is the same whatever its message is.
\<close>

theorem createErrorMessage_policy:
  "(instanceofValidationError error \<or> isDev e \<longrightarrow>
      sublist (errorMessage error) (createErrorMessage e operation error))
   \<and> (instanceofValidationError error \<longrightarrow>
      createErrorMessage e operation error = errorMessage error)
   \<and> (\<not> instanceofValidationError error \<and> isDev e \<longrightarrow>
      createErrorMessage e operation error = ''Failed to '' @ operation @ '': '' @ errorMessage error)
   \<and> (\<not> instanceofValidationError error \<and> \<not> isDev e \<longrightarrow>
      createErrorMessage e operation error = ''Failed to '' @ operation @ '': System error occurred'')"
proof (cases "instanceofValidationError error")
  case True
  then have eq: "createErrorMessage e operation error = errorMessage error"
    by (simp add: createErrorMessage_def)
  show ?thesis
    using True eq by simp
next
  case False
  show ?thesis
  proof (cases "isDev e")
    case True
    have eq: "createErrorMessage e operation error = (''Failed to '' @ operation @ '': '') @ errorMessage error"
      using False True by (simp add: createErrorMessage_def)
    have sub: "sublist (errorMessage error) (createErrorMessage e operation error)"
      unfolding eq by (rule sublist_append_leftI)
    show ?thesis
      using False True sub eq by simp
  next
    case nodev: False
    have eq: "createErrorMessage e operation error = ''Failed to '' @ operation @ '': System error occurred''"
      using False nodev by (simp add: createErrorMessage_def)
    show ?thesis
      using False nodev eq by simp
  qed
qed

theorem createErrorMessage_policy_witness:
  "sublist ''title: Required''
     (createErrorMessage \<lparr>NODE_ENV = None, DEBUG = None\<rparr> ''create reminder''
        (ErrorObject ValidationError ''title: Required''))
   \<and> createErrorMessage \<lparr>NODE_ENV = None, DEBUG = None\<rparr> ''create reminder''
        (ErrorObject ValidationError ''title: Required'') = ''title: Required''
   \<and> createErrorMessage \<lparr>NODE_ENV = Some ''development'', DEBUG = None\<rparr> ''read reminders''
        (ErrorObject HelperExecutionError ''permission denied'')
       = ''Failed to read reminders: permission denied''
   \<and> createErrorMessage \<lparr>NODE_ENV = Some ''production'', DEBUG = Some ''''\<rparr> ''read reminders''
        (ErrorObject HelperExecutionError ''permission denied'')
       = ''Failed to read reminders: System error occurred''"
proof -
  have v: "instanceofValidationError (ErrorObject ValidationError ''title: Required'')"
    by (simp add: instanceofValidationError_def)
  have h: "\<not> instanceofValidationError (ErrorObject HelperExecutionError ''permission denied'')"
    by (simp add: instanceofValidationError_def)
  have dev: "isDev \<lparr>NODE_ENV = Some ''development'', DEBUG = None\<rparr>"
    by (simp add: isDev_def)
  have prod: "\<not> isDev \<lparr>NODE_ENV = Some ''production'', DEBUG = Some ''''\<rparr>"
    by (simp add: isDev_def truthy_def)
  have m1: "errorMessage (ErrorObject ValidationError ''title: Required'') = ''title: Required''"
    by (simp add: errorMessage_def)
  have m2: "errorMessage (ErrorObject HelperExecutionError ''permission denied'') = ''permission denied''"
    by (simp add: errorMessage_def)
  note a = createErrorMessage_policy [where error = "ErrorObject ValidationError ''title: Required''"
          and e = "\<lparr>NODE_ENV = None, DEBUG = None\<rparr>" and operation = "''create reminder''"]
  note b = createErrorMessage_policy [where error = "ErrorObject HelperExecutionError ''permission denied''"
          and e = "\<lparr>NODE_ENV = Some ''development'', DEBUG = None\<rparr>" and operation = "''read reminders''"]
  note c = createErrorMessage_policy [where error = "ErrorObject HelperExecutionError ''permission denied''"
          and e = "\<lparr>NODE_ENV = Some ''production'', DEBUG = Some ''''\<rparr>" and operation = "''read reminders''"]
  have c1: "sublist ''title: Required''
     (createErrorMessage \<lparr>NODE_ENV = None, DEBUG = None\<rparr> ''create reminder''
        (ErrorObject ValidationError ''title: Required''))"
    using a v m1 by simp
  have c2: "createErrorMessage \<lparr>NODE_ENV = None, DEBUG = None\<rparr> ''create reminder''
        (ErrorObject ValidationError ''title: Required'') = ''title: Required''"
    using a v m1 by simp
  have c3: "createErrorMessage \<lparr>NODE_ENV = Some ''development'', DEBUG = None\<rparr> ''read reminders''
        (ErrorObject HelperExecutionError ''permission denied'')
       = ''Failed to read reminders: permission denied''"
    using b h dev m2 by simp
  have c4: "createErrorMessage \<lparr>NODE_ENV = Some ''production'', DEBUG = Some ''''\<rparr> ''read reminders''
        (ErrorObject HelperExecutionError ''permission denied'')
       = ''Failed to read reminders: System error occurred''"
    using c h prod by simp
  show ?thesis
    using c1 c2 c3 c4 by simp
qed

text \<open>
  The claim as stated also says that the production text of a non-validation error does
  not include the error's message. The generic text is fixed, so it includes every
  message that happens to occur in it: an error whose message is
  \<^verbatim>\<open>System error occurred\<close> is rendered in production with its message in the text.
  And \<^verbatim>\<open>DEBUG\<close> counts only when it is truthy: with \<^verbatim>\<open>DEBUG\<close> set to the empty
  string the text is the generic one.
\<close>

theorem createErrorMessage_generic_counterexample:
  "\<not> instanceofValidationError (ErrorObject GenericError ''System error occurred'')
   \<and> \<not> isDev \<lparr>NODE_ENV = Some ''production'', DEBUG = None\<rparr>
   \<and> sublist (errorMessage (ErrorObject GenericError ''System error occurred''))
        (createErrorMessage \<lparr>NODE_ENV = Some ''production'', DEBUG = None\<rparr> ''read reminders''
          (ErrorObject GenericError ''System error occurred''))
   \<and> createErrorMessage \<lparr>NODE_ENV = None, DEBUG = Some ''''\<rparr> ''read reminders''
          (ErrorObject GenericError ''disk full'')
        = ''Failed to read reminders: System error occurred''"
proof -
  have m: "errorMessage (ErrorObject GenericError ''System error occurred'') = ''System error occurred''"
    by (simp add: errorMessage_def)
  have nv: "\<not> instanceofValidationError (ErrorObject GenericError ''System error occurred'')"
    by (simp add: instanceofValidationError_def)
  have nd: "\<not> isDev \<lparr>NODE_ENV = Some ''production'', DEBUG = None\<rparr>"
    by (simp add: isDev_def truthy_def)
  have eq: "createErrorMessage \<lparr>NODE_ENV = Some ''production'', DEBUG = None\<rparr> ''read reminders''
          (ErrorObject GenericError ''System error occurred'')
        = ''Failed to read reminders: '' @ ''System error occurred''"
    using nv nd by (simp add: createErrorMessage_def)
  have sub: "sublist (errorMessage (ErrorObject GenericError ''System error occurred''))
        (createErrorMessage \<lparr>NODE_ENV = Some ''production'', DEBUG = None\<rparr> ''read reminders''
          (ErrorObject GenericError ''System error occurred''))"
    unfolding eq m by (rule sublist_append_leftI)
  have empty_debug: "createErrorMessage \<lparr>NODE_ENV = None, DEBUG = Some ''''\<rparr> ''read reminders''
          (ErrorObject GenericError ''disk full'')
        = ''Failed to read reminders: System error occurred''"
    by (simp add: createErrorMessage_def instanceofValidationError_def isDev_def truthy_def)
  show ?thesis
    using nv nd sub empty_debug by (intro conjI)
qed

subsection \<open>C3: an empty filter match and a missed id lookup\<close>

text \<open>
  C3 (as amended). \<^verbatim>\<open>handleReadReminders\<close> takes the lookup by id only when the raw
  \<^verbatim>\<open>args.id\<close> is truthy (the guard \<^verbatim>\<open>if (args.id)\<close>, which the code comments as
  the check whether an id is provided): an absent id and the empty string are both
  "no id", every non-empty string is an id. For a read request that passes validation:
  when the raw id is absent or empty and the repository finds no reminder for the
  filters, the result has \<^verbatim>\<open>isError\<close> false and its text is the list header with a
  total of 0 followed by \<^verbatim>\<open>No reminders found matching the criteria.\<close>; when the raw
  id is non-empty and the repository's lookup by id throws its not-found error, the
  result has \<^verbatim>\<open>isError\<close> true, and its text is \<^verbatim>\<open>Failed to read reminders: \<close>
  followed by the not-found message in development mode and the generic
  \<^verbatim>\<open>Failed to read reminders: System error occurred\<close> otherwise. The two outcomes are
  never conflated: they differ in \<^verbatim>\<open>isError\<close>.
\<close>

theorem handleReadReminders_empty_outcomes:
  "(extractAndValidateArgs validateInput (Some args) ReadRemindersSchema = Return validatedArgs
      \<and> \<not> jsTruthy (args ''id'')
      \<and> findReminders (Map.empty(''list'' := validatedArgs ''filterList'',
                                  ''showCompleted'' := validatedArgs ''showCompleted'',
                                  ''search'' := validatedArgs ''search'',
                                  ''dueWithin'' := validatedArgs ''dueWithin'')) w = (Return [], w')
      \<longrightarrow>
      handleReadReminders validateInput findReminderById findReminders formatMultilineNotes e args w
        = (Return \<lparr>content = [\<lparr>content_type = ''text'',
                                content_text = ''### Reminders (Total: 0)'' @ newline @ newline
                                   @ ''No reminders found matching the criteria.''\<rparr>],
                   isError = False\<rparr>, w'))
   \<and> (extractAndValidateArgs validateInput (Some args) ReadRemindersSchema = Return validatedArgs
      \<and> jsTruthy (args ''id'')
      \<and> findReminderById (args ''id'') w = (Throw (ErrorObject NotFoundError message), w')
      \<longrightarrow>
      handleReadReminders validateInput findReminderById findReminders formatMultilineNotes e args w
        = (Return \<lparr>content = [\<lparr>content_type = ''text'',
                                content_text =
                                  (if isDev e then ''Failed to read reminders: '' @ message
                                   else ''Failed to read reminders: System error occurred'')\<rparr>],
                   isError = True\<rparr>, w'))
   \<and> \<not> jsTruthy None
   \<and> (jsTruthy (Some (JString ident)) \<longleftrightarrow> ident \<noteq> '''')"
proof (intro conjI impI)
  show "\<not> jsTruthy None"
    by (simp add: jsTruthy_def)
  show "jsTruthy (Some (JString ident)) \<longleftrightarrow> ident \<noteq> ''''"
    by (simp add: jsTruthy_def)
next
  assume a: "extractAndValidateArgs validateInput (Some args) ReadRemindersSchema = Return validatedArgs
      \<and> \<not> jsTruthy (args ''id'')
      \<and> findReminders (Map.empty(''list'' := validatedArgs ''filterList'',
                                  ''showCompleted'' := validatedArgs ''showCompleted'',
                                  ''search'' := validatedArgs ''search'',
                                  ''dueWithin'' := validatedArgs ''dueWithin'')) w = (Return [], w')"
  then have v: "extractAndValidateArgs validateInput (Some args) ReadRemindersSchema = Return validatedArgs"
    and f: "\<not> jsTruthy (args ''id'')"
    and r: "findReminders (Map.empty(''list'' := validatedArgs ''filterList'',
                                  ''showCompleted'' := validatedArgs ''showCompleted'',
                                  ''search'' := validatedArgs ''search'',
                                  ''dueWithin'' := validatedArgs ''dueWithin'')) w = (Return [], w')"
    by simp_all
  show "handleReadReminders validateInput findReminderById findReminders formatMultilineNotes e args w
        = (Return \<lparr>content = [\<lparr>content_type = ''text'',
                                content_text = ''### Reminders (Total: 0)'' @ newline @ newline
                                   @ ''No reminders found matching the criteria.''\<rparr>],
                   isError = False\<rparr>, w')"
    unfolding handleReadReminders_by_filter [OF v f]
    using r by (simp add: handleAsyncOperation_cases await_def settled_def formatListMarkdown_empty)
next
  assume a: "extractAndValidateArgs validateInput (Some args) ReadRemindersSchema = Return validatedArgs
      \<and> jsTruthy (args ''id'')
      \<and> findReminderById (args ''id'') w = (Throw (ErrorObject NotFoundError message), w')"
  then have v: "extractAndValidateArgs validateInput (Some args) ReadRemindersSchema = Return validatedArgs"
    and t: "jsTruthy (args ''id'')"
    and r: "findReminderById (args ''id'') w = (Throw (ErrorObject NotFoundError message), w')"
    by simp_all
  have m: "createErrorMessage e ''read reminders'' (ErrorObject NotFoundError message)
        = (if isDev e then ''Failed to read reminders: '' @ message
           else ''Failed to read reminders: System error occurred'')"
    by (simp add: createErrorMessage_def instanceofValidationError_def errorMessage_def)
  show "handleReadReminders validateInput findReminderById findReminders formatMultilineNotes e args w
        = (Return \<lparr>content = [\<lparr>content_type = ''text'',
                                content_text =
                                  (if isDev e then ''Failed to read reminders: '' @ message
                                   else ''Failed to read reminders: System error occurred'')\<rparr>],
                   isError = True\<rparr>, w')"
    unfolding handleReadReminders_by_id [OF v t]
    using r by (simp add: handleAsyncOperation_cases await_def settled_def m)
qed

theorem handleReadReminders_empty_outcomes_witness:
  "handleReadReminders (\<lambda>schema input. Return input)
      (\<lambda>ident. settled (Throw (ErrorObject NotFoundError ''Reminder not found'')))
      (\<lambda>filters. settled (Return [])) (\<lambda>notes. notes)
      \<lparr>NODE_ENV = Some ''development'', DEBUG = None\<rparr>
      [''action'' \<mapsto> JString ''read'', ''search'' \<mapsto> JString ''unicorn''] (0::nat)
     = (Return \<lparr>content = [\<lparr>content_type = ''text'',
                             content_text = ''### Reminders (Total: 0)'' @ newline @ newline
                                @ ''No reminders found matching the criteria.''\<rparr>],
                isError = False\<rparr>, 0)
   \<and> handleReadReminders (\<lambda>schema input. Return input)
      (\<lambda>ident. settled (Throw (ErrorObject NotFoundError ''Reminder not found'')))
      (\<lambda>filters. settled (Return [])) (\<lambda>notes. notes)
      \<lparr>NODE_ENV = Some ''development'', DEBUG = None\<rparr>
      [''action'' \<mapsto> JString ''read'', ''id'' \<mapsto> JString ''ZZZ''] (0::nat)
     = (Return \<lparr>content = [\<lparr>content_type = ''text'',
                             content_text = ''Failed to read reminders: Reminder not found''\<rparr>],
                isError = True\<rparr>, 0)"
proof -
  let ?validate = "\<lambda>(schema::schema) (input::jsobject). Return input"
  let ?byId = "\<lambda>(ident::jsval option). settled (Throw (ErrorObject NotFoundError ''Reminder not found''))
                 :: (reminder, nat) async"
  let ?find = "\<lambda>(filters::jsobject). settled (Return []) :: (reminder list, nat) async"
  let ?dev = "\<lparr>NODE_ENV = Some ''development'', DEBUG = None\<rparr>"
  let ?search = "[''action'' \<mapsto> JString ''read'', ''search'' \<mapsto> JString ''unicorn'']"
  let ?lookup = "[''action'' \<mapsto> JString ''read'', ''id'' \<mapsto> JString ''ZZZ'']"
  note a = handleReadReminders_empty_outcomes [where validateInput = "?validate"
      and findReminderById = "?byId" and findReminders = "?find"
      and formatMultilineNotes = "\<lambda>notes. notes" and e = "?dev" and args = "?search"
      and validatedArgs = "?search(''action'' := None)" and w = "0::nat" and w' = "0::nat",
      THEN conjunct1]
  note b = handleReadReminders_empty_outcomes [where validateInput = "?validate"
      and findReminderById = "?byId" and findReminders = "?find"
      and formatMultilineNotes = "\<lambda>notes. notes" and e = "?dev" and args = "?lookup"
      and validatedArgs = "?lookup(''action'' := None)" and w = "0::nat" and w' = "0::nat"
      and message = "''Reminder not found''",
      THEN conjunct2, THEN conjunct1]
  have ha: "extractAndValidateArgs ?validate (Some ?search) ReadRemindersSchema
              = Return (?search(''action'' := None))
            \<and> \<not> jsTruthy (?search ''id'')
            \<and> ?find (Map.empty(''list'' := (?search(''action'' := None)) ''filterList'',
                                ''showCompleted'' := (?search(''action'' := None)) ''showCompleted'',
                                ''search'' := (?search(''action'' := None)) ''search'',
                                ''dueWithin'' := (?search(''action'' := None)) ''dueWithin'')) 0
                = (Return [], 0)"
    by (simp add: extractAndValidateArgs_def jsTruthy_def settled_def)
  have hb: "extractAndValidateArgs ?validate (Some ?lookup) ReadRemindersSchema
              = Return (?lookup(''action'' := None))
            \<and> jsTruthy (?lookup ''id'')
            \<and> ?byId (?lookup ''id'') 0
                = (Throw (ErrorObject NotFoundError ''Reminder not found''), 0)"
    by (simp add: extractAndValidateArgs_def jsTruthy_def settled_def)
  have dev: "isDev ?dev"
    by (simp add: isDev_def)
  have c1: "handleReadReminders ?validate ?byId ?find (\<lambda>notes. notes) ?dev ?search (0::nat)
     = (Return \<lparr>content = [\<lparr>content_type = ''text'',
                             content_text = ''### Reminders (Total: 0)'' @ newline @ newline
                                @ ''No reminders found matching the criteria.''\<rparr>],
                isError = False\<rparr>, 0)"
    by (rule mp [OF a ha])
  have "handleReadReminders ?validate ?byId ?find (\<lambda>notes. notes) ?dev ?lookup (0::nat)
     = (Return \<lparr>content = [\<lparr>content_type = ''text'',
                             content_text =
                               (if isDev ?dev then ''Failed to read reminders: '' @ ''Reminder not found''
                                else ''Failed to read reminders: System error occurred'')\<rparr>],
                isError = True\<rparr>, 0)"
    by (rule mp [OF b hb])
  then have c2: "handleReadReminders ?validate ?byId ?find (\<lambda>notes. notes) ?dev ?lookup (0::nat)
     = (Return \<lparr>content = [\<lparr>content_type = ''text'',
                             content_text = ''Failed to read reminders: Reminder not found''\<rparr>],
                isError = True\<rparr>, 0)"
    using dev by simp
  show ?thesis
    using c1 c2 by (rule conjI)
qed

text \<open>
  The claim as stated fails in two ways, both by the design of the code.

  It promises a not-found message for a missed id lookup. Outside development mode the
  not-found error goes through the same gate of \<^verbatim>\<open>createErrorMessage\<close> as every other
  non-validation error: with no environment variable set, a lookup of the unknown id
  \<^verbatim>\<open>ZZZ\<close> yields the generic text, with nothing of the not-found message in it.

  It promises an error for every request with an id that matches no reminder. A request
  whose id is the empty string has an id, and no reminder matches it (the lookup below
  throws not-found for every id); but the guard \<^verbatim>\<open>if (args.id)\<close> tests truthiness, so
  the handler never looks the empty id up and answers from the filter path: even in
  development mode the result is the empty list with \<^verbatim>\<open>isError\<close> false. The guard is
  the code's stated way of telling whether an id was provided, so the amended claim
  reads "with an id" as "with a non-empty id" and counts the empty id as no id.
\<close>

theorem handleReadReminders_not_found_generic_counterexample:
  "handleReadReminders (\<lambda>schema input. Return input)
      (\<lambda>ident. settled (Throw (ErrorObject NotFoundError ''Reminder not found'')))
      (\<lambda>filters. settled (Return [])) (\<lambda>notes. notes)
      \<lparr>NODE_ENV = None, DEBUG = None\<rparr>
      [''action'' \<mapsto> JString ''read'', ''id'' \<mapsto> JString ''ZZZ''] (0::nat)
     = (Return \<lparr>content = [\<lparr>content_type = ''text'',
                             content_text = ''Failed to read reminders: System error occurred''\<rparr>],
                isError = True\<rparr>, 0)
   \<and> handleReadReminders (\<lambda>schema input. Return input)
      (\<lambda>ident. settled (Throw (ErrorObject NotFoundError ''Reminder not found'')))
      (\<lambda>filters. settled (Return [])) (\<lambda>notes. notes)
      \<lparr>NODE_ENV = Some ''development'', DEBUG = None\<rparr>
      [''action'' \<mapsto> JString ''read'', ''id'' \<mapsto> JString ''''] (0::nat)
     = (Return \<lparr>content = [\<lparr>content_type = ''text'',
                             content_text = ''### Reminders (Total: 0)'' @ newline @ newline
                                @ ''No reminders found matching the criteria.''\<rparr>],
                isError = False\<rparr>, 0)"
proof (rule conjI)
  show "handleReadReminders (\<lambda>schema input. Return input)
      (\<lambda>ident. settled (Throw (ErrorObject NotFoundError ''Reminder not found'')))
      (\<lambda>filters. settled (Return [])) (\<lambda>notes. notes)
      \<lparr>NODE_ENV = None, DEBUG = None\<rparr>
      [''action'' \<mapsto> JString ''read'', ''id'' \<mapsto> JString ''ZZZ''] (0::nat)
     = (Return \<lparr>content = [\<lparr>content_type = ''text'',
                             content_text = ''Failed to read reminders: System error occurred''\<rparr>],
                isError = True\<rparr>, 0)"
    by (simp add: handleReadReminders_def handleAsyncOperation_cases await_def settled_def
        extractAndValidateArgs_def jsTruthy_def createErrorMessage_def instanceofValidationError_def
        errorMessage_def isDev_def truthy_def)
next
  show "handleReadReminders (\<lambda>schema input. Return input)
      (\<lambda>ident. settled (Throw (ErrorObject NotFoundError ''Reminder not found'')))
      (\<lambda>filters. settled (Return [])) (\<lambda>notes. notes)
      \<lparr>NODE_ENV = Some ''development'', DEBUG = None\<rparr>
      [''action'' \<mapsto> JString ''read'', ''id'' \<mapsto> JString ''''] (0::nat)
     = (Return \<lparr>content = [\<lparr>content_type = ''text'',
                             content_text = ''### Reminders (Total: 0)'' @ newline @ newline
                                @ ''No reminders found matching the criteria.''\<rparr>],
                isError = False\<rparr>, 0)"
    by (simp add: handleReadReminders_def handleAsyncOperation_cases await_def settled_def
        extractAndValidateArgs_def jsTruthy_def formatListMarkdown_empty newline_def)
qed

subsection \<open>C4: a missing required field is named\<close>

text \<open>
  C4. With validation as the specification describes it, a create request without a
  title, and an update or a delete request without an id, is rejected with a
  \<^verbatim>\<open>ValidationError\<close> whose message contains the name of the missing field; the
  handler's result then has \<^verbatim>\<open>isError\<close> true and that message as its text, in every
  environment, and the repository is not called (the outside world is unchanged).
\<close>

theorem missing_required_field_is_named:
  "(args ''title'' = None \<longrightarrow>
      (\<exists>message.
         extractAndValidateArgs (specValidateInput otherChecks) (Some args) CreateReminderSchema
           = Throw (ErrorObject ValidationError message)
         \<and> sublist ''title'' message
         \<and> handleCreateReminder (specValidateInput otherChecks) createReminder e args w
             = (Return \<lparr>content = [\<lparr>content_type = ''text'', content_text = message\<rparr>],
                        isError = True\<rparr>, w)))
   \<and> (args ''id'' = None \<longrightarrow>
      (\<exists>message.
         extractAndValidateArgs (specValidateInput otherChecks) (Some args) UpdateReminderSchema
           = Throw (ErrorObject ValidationError message)
         \<and> sublist ''id'' message
         \<and> handleUpdateReminder (specValidateInput otherChecks) updateReminder e args w
             = (Return \<lparr>content = [\<lparr>content_type = ''text'', content_text = message\<rparr>],
                        isError = True\<rparr>, w)))
   \<and> (args ''id'' = None \<longrightarrow>
      (\<exists>message.
         extractAndValidateArgs (specValidateInput otherChecks) (Some args) DeleteReminderSchema
           = Throw (ErrorObject ValidationError message)
         \<and> sublist ''id'' message
         \<and> handleDeleteReminder (specValidateInput otherChecks) deleteReminder e args w
             = (Return \<lparr>content = [\<lparr>content_type = ''text'', content_text = message\<rparr>],
                        isError = True\<rparr>, w)))"
proof (intro conjI impI)
  assume m: "args ''title'' = None"
  have "''title'' \<in> set (requiredFields CreateReminderSchema)"
    by (simp add: requiredFields_def)
  from specValidateInput_missing [where field = "''title''" and schema = CreateReminderSchema and args = args
      and otherChecks = otherChecks, OF this m]
  obtain message where
    t: "extractAndValidateArgs (specValidateInput otherChecks) (Some args) CreateReminderSchema
          = Throw (ErrorObject ValidationError message)"
    and s: "sublist ''title'' message"
    by blast
  have "handleCreateReminder (specValidateInput otherChecks) createReminder e args w
          = (Return \<lparr>content = [\<lparr>content_type = ''text'', content_text = message\<rparr>],
                     isError = True\<rparr>, w)"
    by (simp add: handleCreateReminder_rejected [OF t] createErrorMessage_validation)
  with t s show "\<exists>message.
         extractAndValidateArgs (specValidateInput otherChecks) (Some args) CreateReminderSchema
           = Throw (ErrorObject ValidationError message)
         \<and> sublist ''title'' message
         \<and> handleCreateReminder (specValidateInput otherChecks) createReminder e args w
             = (Return \<lparr>content = [\<lparr>content_type = ''text'', content_text = message\<rparr>],
                        isError = True\<rparr>, w)"
    by blast
next
  assume m: "args ''id'' = None"
  have "''id'' \<in> set (requiredFields UpdateReminderSchema)"
    by (simp add: requiredFields_def)
  from specValidateInput_missing [where field = "''id''" and schema = UpdateReminderSchema and args = args
      and otherChecks = otherChecks, OF this m]
  obtain message where
    t: "extractAndValidateArgs (specValidateInput otherChecks) (Some args) UpdateReminderSchema
          = Throw (ErrorObject ValidationError message)"
    and s: "sublist ''id'' message"
    by blast
  have "handleUpdateReminder (specValidateInput otherChecks) updateReminder e args w
          = (Return \<lparr>content = [\<lparr>content_type = ''text'', content_text = message\<rparr>],
                     isError = True\<rparr>, w)"
    by (simp add: handleUpdateReminder_rejected [OF t] createErrorMessage_validation)
  with t s show "\<exists>message.
         extractAndValidateArgs (specValidateInput otherChecks) (Some args) UpdateReminderSchema
           = Throw (ErrorObject ValidationError message)
         \<and> sublist ''id'' message
         \<and> handleUpdateReminder (specValidateInput otherChecks) updateReminder e args w
             = (Return \<lparr>content = [\<lparr>content_type = ''text'', content_text = message\<rparr>],
                        isError = True\<rparr>, w)"
    by blast
next
  assume m: "args ''id'' = None"
  have "''id'' \<in> set (requiredFields DeleteReminderSchema)"
    by (simp add: requiredFields_def)
  from specValidateInput_missing [where field = "''id''" and schema = DeleteReminderSchema and args = args
      and otherChecks = otherChecks, OF this m]
  obtain message where
    t: "extractAndValidateArgs (specValidateInput otherChecks) (Some args) DeleteReminderSchema
          = Throw (ErrorObject ValidationError message)"
    and s: "sublist ''id'' message"
    by blast
  have "handleDeleteReminder (specValidateInput otherChecks) deleteReminder e args w
          = (Return \<lparr>content = [\<lparr>content_type = ''text'', content_text = message\<rparr>],
                     isError = True\<rparr>, w)"
    by (simp add: handleDeleteReminder_rejected [OF t] createErrorMessage_validation)
  with t s show "\<exists>message.
         extractAndValidateArgs (specValidateInput otherChecks) (Some args) DeleteReminderSchema
           = Throw (ErrorObject ValidationError message)
         \<and> sublist ''id'' message
         \<and> handleDeleteReminder (specValidateInput otherChecks) deleteReminder e args w
             = (Return \<lparr>content = [\<lparr>content_type = ''text'', content_text = message\<rparr>],
                        isError = True\<rparr>, w)"
    by blast
qed

theorem missing_required_field_is_named_witness:
  "handleCreateReminder (specValidateInput (\<lambda>schema input. []))
      (\<lambda>request. settled (Throw NonError)) \<lparr>NODE_ENV = Some ''production'', DEBUG = None\<rparr>
      [''action'' \<mapsto> JString ''create'', ''note'' \<mapsto> JString ''2 litres''] (0::nat)
     = (Return \<lparr>content = [\<lparr>content_type = ''text'', content_text = ''title: Required''\<rparr>],
                isError = True\<rparr>, 0)
   \<and> sublist ''title'' ''title: Required''"
proof -
  let ?checks = "\<lambda>(schema::schema) (input::jsobject). [] :: (string \<times> string) list"
  let ?create = "\<lambda>(request::jsobject). settled (Throw NonError) :: (reminder, nat) async"
  let ?prod = "\<lparr>NODE_ENV = Some ''production'', DEBUG = None\<rparr>"
  let ?args = "[''action'' \<mapsto> JString ''create'', ''note'' \<mapsto> JString ''2 litres'']"
  note a = missing_required_field_is_named [where otherChecks = "?checks" and createReminder = "?create"
      and e = "?prod" and args = "?args" and w = "0::nat", THEN conjunct1]
  have h: "?args ''title'' = None"
    by simp
  from mp [OF a h] obtain message where
    t: "extractAndValidateArgs (specValidateInput ?checks) (Some ?args) CreateReminderSchema
          = Throw (ErrorObject ValidationError message)"
    and s: "sublist ''title'' message"
    and r: "handleCreateReminder (specValidateInput ?checks) ?create ?prod ?args (0::nat)
          = (Return \<lparr>content = [\<lparr>content_type = ''text'', content_text = message\<rparr>],
                     isError = True\<rparr>, 0)"
    by blast
  have "extractAndValidateArgs (specValidateInput ?checks) (Some ?args) CreateReminderSchema
          = Throw (ErrorObject ValidationError ''title: Required'')"
    by (simp add: extractAndValidateArgs_def specValidateInput_def Let_def missingFields_def
        requiredFields_def issueText_def)
  with t have m: "message = ''title: Required''"
    by simp
  show ?thesis
    using r s unfolding m by (rule conjI)
qed

subsection \<open>C5: an untrusted helper path is never run\<close>

text \<open>
  C5. With the path resolver and the subprocess invoker as the specification describes
  them: when the configured helper path resolves (after following symlinks) outside the
  allow-listed directory, the call fails with \<^verbatim>\<open>UntrustedBinaryError\<close> and the event
  list is unchanged, so no argument list was built and no subprocess was spawned. More
  generally, every subprocess a call spawns runs the resolved path, which lies inside
  the allow-listed directory (and has the pinned hash in production).
\<close>

theorem untrusted_path_never_spawned:
  "(\<not> insideDirectory (allowedDirectory config) (realpath (configuredPath config)) \<longrightarrow>
      (\<exists>message. resolve config realpath contentHash = Throw (ErrorObject UntrustedBinaryError message)
         \<and> adapter config realpath contentHash helper build parse request events
             = (Throw (ErrorObject UntrustedBinaryError message), events)))
   \<and> (\<exists>new.
        snd (adapter config realpath contentHash helper build parse request events) = events @ new
        \<and> (\<forall>path invocation.
             Spawned path invocation \<in> set new
             \<longrightarrow> path = realpath (configuredPath config)
                 \<and> insideDirectory (allowedDirectory config) path
                 \<and> (production config \<longrightarrow> contentHash path = expectedHash config)))"
proof (intro conjI impI)
  assume "\<not> insideDirectory (allowedDirectory config) (realpath (configuredPath config))"
  then obtain message where
    r: "resolve config realpath contentHash = Throw (ErrorObject UntrustedBinaryError message)"
    using resolve_outside by blast
  then have "adapter config realpath contentHash helper build parse request events
             = (Throw (ErrorObject UntrustedBinaryError message), events)"
    by (rule adapter_untrusted)
  with r show "\<exists>message. resolve config realpath contentHash = Throw (ErrorObject UntrustedBinaryError message)
         \<and> adapter config realpath contentHash helper build parse request events
             = (Throw (ErrorObject UntrustedBinaryError message), events)"
    by blast
next
  show "\<exists>new.
        snd (adapter config realpath contentHash helper build parse request events) = events @ new
        \<and> (\<forall>path invocation.
             Spawned path invocation \<in> set new
             \<longrightarrow> path = realpath (configuredPath config)
                 \<and> insideDirectory (allowedDirectory config) path
                 \<and> (production config \<longrightarrow> contentHash path = expectedHash config))"
  proof (cases "resolve config realpath contentHash")
    case (Throw error)
    then have "snd (adapter config realpath contentHash helper build parse request events) = events @ []"
      by (simp add: adapter_untrusted)
    then show ?thesis
      by (intro exI [of _ "[]"]) simp
  next
    case (Return resolvedPath)
    note t = resolve_Return_trusted [OF Return]
    have "snd (adapter config realpath contentHash helper build parse request events)
            = events @ [ArgumentsBuilt (build request), Spawned resolvedPath (build request)]"
      by (rule adapter_trusted [OF Return])
    moreover have "\<forall>path invocation.
             Spawned path invocation \<in> set [ArgumentsBuilt (build request), Spawned resolvedPath (build request)]
             \<longrightarrow> path = realpath (configuredPath config)
                 \<and> insideDirectory (allowedDirectory config) path
                 \<and> (production config \<longrightarrow> contentHash path = expectedHash config)"
      using t by auto
    ultimately show ?thesis
      by blast
  qed
qed

theorem untrusted_path_never_spawned_witness:
  "(\<exists>message.
      adapter \<lparr>configuredPath = ''/usr/local/bin/helper'', allowedDirectory = ''/opt/reminders/bin'',
               production = False, expectedHash = ''5f2a''\<rparr>
        (\<lambda>path. ''/tmp/elsewhere/helper'') (\<lambda>path. ''0000'')
        (\<lambda>path invocation. Exited ''ok'' '''' 0) buildCreateInvocation (\<lambda>stdout. Return stdout)
        [''title'' \<mapsto> JString ''Buy milk''] []
      = (Throw (ErrorObject UntrustedBinaryError message), []))
   \<and> snd (adapter
             \<lparr>configuredPath = ''/opt/reminders/bin/helper'', allowedDirectory = ''/opt/reminders/bin'',
              production = True, expectedHash = ''5f2a''\<rparr>
             (\<lambda>path. path) (\<lambda>path. ''5f2a'')
             (\<lambda>path invocation. Exited ''ok'' '''' 0) buildCreateInvocation (\<lambda>stdout. Return stdout)
             [''title'' \<mapsto> JString ''Buy milk''] [])
       = [ArgumentsBuilt \<lparr>command = CreateReminderCmd, arguments = [''--title'', ''Buy milk'']\<rparr>,
          Spawned ''/opt/reminders/bin/helper''
            \<lparr>command = CreateReminderCmd, arguments = [''--title'', ''Buy milk'']\<rparr>]
   \<and> insideDirectory ''/opt/reminders/bin'' ''/opt/reminders/bin/helper''"
proof -
  let ?bad = "\<lparr>configuredPath = ''/usr/local/bin/helper'', allowedDirectory = ''/opt/reminders/bin'',
               production = False, expectedHash = ''5f2a''\<rparr>"
  let ?good = "\<lparr>configuredPath = ''/opt/reminders/bin/helper'', allowedDirectory = ''/opt/reminders/bin'',
              production = True, expectedHash = ''5f2a''\<rparr>"
  let ?helper = "\<lambda>(path::string) (invocation::CommandInvocation). Exited ''ok'' '''' 0"
  let ?parse = "\<lambda>(stdout::string). Return stdout"
  let ?request = "[''title'' \<mapsto> JString ''Buy milk'']"
  let ?inv = "\<lparr>command = CreateReminderCmd, arguments = [''--title'', ''Buy milk'']\<rparr>"
  note a = untrusted_path_never_spawned [where config = "?bad"
      and realpath = "\<lambda>path. ''/tmp/elsewhere/helper''" and contentHash = "\<lambda>path. ''0000''"
      and helper = "?helper" and build = buildCreateInvocation and parse = "?parse"
      and request = "?request" and events = "[]", THEN conjunct1]
  note b = untrusted_path_never_spawned [where config = "?good"
      and realpath = "\<lambda>path. path" and contentHash = "\<lambda>path. ''5f2a''"
      and helper = "?helper" and build = buildCreateInvocation and parse = "?parse"
      and request = "?request" and events = "[]", THEN conjunct2]
  have ha: "\<not> insideDirectory (allowedDirectory ?bad) ((\<lambda>path. ''/tmp/elsewhere/helper'') (configuredPath ?bad))"
    by (simp add: insideDirectory_def)
  have r: "resolve ?good (\<lambda>path. path) (\<lambda>path. ''5f2a'') = Return ''/opt/reminders/bin/helper''"
    by (simp add: resolve_def isAbsolute_def insideDirectory_def Let_def)
  have i: "buildCreateInvocation ?request = ?inv"
    by (simp add: buildCreateInvocation_def optionalFlag_def jsToString_def)
  have ran: "snd (adapter ?good (\<lambda>path. path) (\<lambda>path. ''5f2a'') ?helper buildCreateInvocation ?parse
             ?request [])
       = [ArgumentsBuilt ?inv, Spawned ''/opt/reminders/bin/helper'' ?inv]"
    by (simp add: adapter_trusted [OF r] i)
  from mp [OF a ha] have c1: "\<exists>message.
      adapter ?bad (\<lambda>path. ''/tmp/elsewhere/helper'') (\<lambda>path. ''0000'') ?helper buildCreateInvocation
        ?parse ?request []
      = (Throw (ErrorObject UntrustedBinaryError message), [])"
    by blast
  from b obtain new where
    n: "snd (adapter ?good (\<lambda>path. path) (\<lambda>path. ''5f2a'') ?helper buildCreateInvocation ?parse
             ?request []) = [] @ new"
    and all: "\<forall>path invocation. Spawned path invocation \<in> set new
             \<longrightarrow> path = (\<lambda>path. path) (configuredPath ?good)
                 \<and> insideDirectory (allowedDirectory ?good) path
                 \<and> (production ?good \<longrightarrow> (\<lambda>path. ''5f2a'') path = expectedHash ?good)"
    by blast
  from n ran have "new = [ArgumentsBuilt ?inv, Spawned ''/opt/reminders/bin/helper'' ?inv]"
    by simp
  then have "Spawned ''/opt/reminders/bin/helper'' ?inv \<in> set new"
    by simp
  with all have "insideDirectory (allowedDirectory ?good) ''/opt/reminders/bin/helper''"
    by blast
  then have c3: "insideDirectory ''/opt/reminders/bin'' ''/opt/reminders/bin/helper''"
    by simp
  show ?thesis
    using c1 ran c3 by blast
qed

subsection \<open>C6: creating the reminder "Buy milk"\<close>

text \<open>
  C6. With validation, the repository adapter and the helper invocation as the
  specification describes them: for the request \<^verbatim>\<open>{action: "create", title: "Buy milk"}\<close>,
  when the helper path is trusted and the helper answers the create subcommand with a
  reminder titled \<^verbatim>\<open>Buy milk\<close> that has an id, the helper is spawned exactly once,
  with the create subcommand and the argument list \<^verbatim>\<open>["--title", "Buy milk"]\<close> as
  discrete elements, and the result has \<^verbatim>\<open>isError\<close> false and the text
  \<^verbatim>\<open>Successfully created reminder "Buy milk".\<close> followed by a line \<^verbatim>\<open>- ID: <id>\<close>.
\<close>

theorem create_buy_milk_scenario:
  assumes trusted: "resolve config realpath contentHash = Return resolvedPath"
    and valid: "otherChecks CreateReminderSchema [''title'' \<mapsto> JString ''Buy milk''] = []"
    and helper: "helper resolvedPath \<lparr>command = CreateReminderCmd, arguments = [''--title'', ''Buy milk'']\<rparr>
                   = Exited stdout stderr 0"
    and parsed: "parseReminder stdout = Return reminder"
    and title: "r_title reminder = ''Buy milk''"
    and ident: "r_id reminder = Some ident"
  shows "handleCreateReminder (specValidateInput otherChecks)
           (specCreateReminder config realpath contentHash helper parseReminder) e
           [''action'' \<mapsto> JString ''create'', ''title'' \<mapsto> JString ''Buy milk''] events
     = (Return \<lparr>content = [\<lparr>content_type = ''text'',
                             content_text = ''Successfully created reminder '' @ dquote @ ''Buy milk''
                                @ dquote @ ''.'' @ newline @ ''- ID: '' @ ident\<rparr>],
                isError = False\<rparr>,
        events @ [ArgumentsBuilt \<lparr>command = CreateReminderCmd, arguments = [''--title'', ''Buy milk'']\<rparr>,
                  Spawned resolvedPath
                    \<lparr>command = CreateReminderCmd, arguments = [''--title'', ''Buy milk'']\<rparr>])"
proof -
  let ?validated = "[''title'' \<mapsto> JString ''Buy milk'']"
  let ?request = "Map.empty(''title'' := ?validated ''title'', ''notes'' := ?validated ''note'',
                            ''url'' := ?validated ''url'', ''list'' := ?validated ''targetList'',
                            ''dueDate'' := ?validated ''dueDate'')"
  have rest: "[''action'' \<mapsto> JString ''create'', ''title'' \<mapsto> JString ''Buy milk''](''action'' := None)
                = ?validated"
    by (rule ext) simp
  have v: "extractAndValidateArgs (specValidateInput otherChecks)
             (Some [''action'' \<mapsto> JString ''create'', ''title'' \<mapsto> JString ''Buy milk''])
             CreateReminderSchema
           = Return ?validated"
    using valid
    by (simp add: extractAndValidateArgs_def rest specValidateInput_def Let_def missingFields_def
        requiredFields_def)
  have b: "buildCreateInvocation ?request
           = \<lparr>command = CreateReminderCmd, arguments = [''--title'', ''Buy milk'']\<rparr>"
    by (simp add: buildCreateInvocation_def optionalFlag_def jsToString_def)
  have h: "helper resolvedPath (buildCreateInvocation ?request) = Exited stdout stderr 0"
    unfolding b by (rule helper)
  have c: "specCreateReminder config realpath contentHash helper parseReminder ?request events
           = (Return reminder,
              events @ [ArgumentsBuilt \<lparr>command = CreateReminderCmd, arguments = [''--title'', ''Buy milk'']\<rparr>,
                        Spawned resolvedPath
                          \<lparr>command = CreateReminderCmd, arguments = [''--title'', ''Buy milk'']\<rparr>])"
    using specCreateReminder_success [where config = config and realpath = realpath
        and contentHash = contentHash and resolvedPath = resolvedPath and helper = helper
        and request = "?request" and stdout = stdout and stderr = stderr
        and parseReminder = parseReminder and events = events, OF trusted h]
    unfolding b parsed .
  have m: "formatSuccessMessage ''created'' ''reminder'' (r_title reminder) (interpolate (r_id reminder))
           = ''Successfully created reminder '' @ dquote @ ''Buy milk''
                                @ dquote @ ''.'' @ newline @ ''- ID: '' @ ident"
    unfolding title ident formatSuccessMessage_created_reminder by (simp add: interpolate_def)
  show ?thesis
    unfolding handleCreateReminder_accepted [where validateInput = "specValidateInput otherChecks"
        and createReminder = "specCreateReminder config realpath contentHash helper parseReminder"
        and validatedArgs = "?validated" and reminder = reminder and w = events and e = e, OF v c] m
    by (rule refl)
qed

theorem create_buy_milk_scenario_witness:
  "handleCreateReminder (specValidateInput (\<lambda>schema input. []))
      (specCreateReminder
         \<lparr>configuredPath = ''/opt/reminders/bin/helper'', allowedDirectory = ''/opt/reminders/bin'',
          production = True, expectedHash = ''5f2a''\<rparr>
         (\<lambda>path. path) (\<lambda>path. ''5f2a'')
         (\<lambda>path invocation. Exited ''ABC123'' '''' 0)
         (\<lambda>stdout. Return \<lparr>r_title = ''Buy milk'', r_isCompleted = False, r_list = None,
                              r_id = Some stdout, r_notes = None, r_dueDate = None, r_url = None\<rparr>))
      \<lparr>NODE_ENV = None, DEBUG = None\<rparr>
      [''action'' \<mapsto> JString ''create'', ''title'' \<mapsto> JString ''Buy milk''] []
     = (Return \<lparr>content = [\<lparr>content_type = ''text'',
                             content_text = ''Successfully created reminder '' @ dquote @ ''Buy milk''
                                @ dquote @ ''.'' @ newline @ ''- ID: '' @ ''ABC123''\<rparr>],
                isError = False\<rparr>,
        [] @ [ArgumentsBuilt \<lparr>command = CreateReminderCmd, arguments = [''--title'', ''Buy milk'']\<rparr>,
              Spawned ''/opt/reminders/bin/helper''
                \<lparr>command = CreateReminderCmd, arguments = [''--title'', ''Buy milk'']\<rparr>])"
proof -
  let ?config = "\<lparr>configuredPath = ''/opt/reminders/bin/helper'', allowedDirectory = ''/opt/reminders/bin'',
          production = True, expectedHash = ''5f2a''\<rparr>"
  let ?helper = "\<lambda>(path::string) (invocation::CommandInvocation). Exited ''ABC123'' '''' 0"
  let ?parse = "\<lambda>stdout. Return \<lparr>r_title = ''Buy milk'', r_isCompleted = False, r_list = None,
                              r_id = Some stdout, r_notes = None, r_dueDate = None, r_url = None\<rparr>"
  let ?reminder = "\<lparr>r_title = ''Buy milk'', r_isCompleted = False, r_list = None,
                    r_id = Some ''ABC123'', r_notes = None, r_dueDate = None, r_url = None\<rparr>"
  have h1: "resolve ?config (\<lambda>path. path) (\<lambda>path. ''5f2a'') = Return ''/opt/reminders/bin/helper''"
    by (simp add: resolve_def isAbsolute_def insideDirectory_def Let_def)
  have h2: "(\<lambda>(schema::schema) (input::jsobject). [] :: (string \<times> string) list)
              CreateReminderSchema [''title'' \<mapsto> JString ''Buy milk''] = []"
    by simp
  have h3: "?helper ''/opt/reminders/bin/helper''
              \<lparr>command = CreateReminderCmd, arguments = [''--title'', ''Buy milk'']\<rparr>
            = Exited ''ABC123'' '''' 0"
    by simp
  have h4: "?parse ''ABC123'' = Return ?reminder"
    by simp
  have h5: "r_title ?reminder = ''Buy milk''"
    by simp
  have h6: "r_id ?reminder = Some ''ABC123''"
    by simp
  show ?thesis
    by (rule create_buy_milk_scenario [where config = "?config" and realpath = "\<lambda>path. path"
          and contentHash = "\<lambda>path. ''5f2a''" and resolvedPath = "''/opt/reminders/bin/helper''"
          and otherChecks = "\<lambda>schema input. []" and helper = "?helper" and stdout = "''ABC123''"
          and stderr = "''''" and parseReminder = "?parse" and reminder = "?reminder"
          and ident = "''ABC123''" and e = "\<lparr>NODE_ENV = None, DEBUG = None\<rparr>" and events = "[]",
          OF h1 h2 h3 h4 h5 h6])
qed

subsection \<open>C7: the list header and the empty list\<close>

text \<open>
  C7. For every title, item list, item formatter and empty message, the text of
  \<^verbatim>\<open>formatListMarkdown\<close> starts with the header line
  \<^verbatim>\<open>### <title> (Total: <n>)\<close>, where \<open>n\<close> is the length of the list in decimal; for
  the empty list the text is that header with a total of 0, an empty line and then
  exactly the empty message; and wrapped by \<^verbatim>\<open>handleAsyncOperation\<close> the empty case
  is a result with \<^verbatim>\<open>isError\<close> false.
\<close>

theorem formatListMarkdown_count_and_empty:
  "prefix ((''### '' @ title @ '' (Total: '' @ numberToString (length items) @ '')'') @ newline)
          (formatListMarkdown title items formatItem emptyMessage)
   \<and> formatListMarkdown title [] formatItem emptyMessage
        = (''### '' @ title @ '' (Total: 0)'') @ newline @ newline @ emptyMessage
   \<and> handleAsyncOperation e
        (settled (Return (formatListMarkdown title [] formatItem emptyMessage))) operationName w
        = (Return \<lparr>content = [\<lparr>content_type = ''text'',
                                content_text = (''### '' @ title @ '' (Total: 0)'') @ newline @ newline
                                               @ emptyMessage\<rparr>],
                   isError = False\<rparr>, w)"
proof -
  have eq: "formatListMarkdown title items formatItem emptyMessage
        = ((''### '' @ title @ '' (Total: '' @ numberToString (length items) @ '')'') @ newline)
          @ join newline ('''' # (if items = [] then [emptyMessage] else concat (map formatItem items)))"
    by (simp add: formatListMarkdown_def Let_def foldl_push)
  have a: "prefix ((''### '' @ title @ '' (Total: '' @ numberToString (length items) @ '')'') @ newline)
          (formatListMarkdown title items formatItem emptyMessage)"
    unfolding eq by (rule prefixI) (rule refl)
  have b: "formatListMarkdown title [] formatItem emptyMessage
        = (''### '' @ title @ '' (Total: 0)'') @ newline @ newline @ emptyMessage"
    by (simp add: formatListMarkdown_def Let_def numberToString_small digit_def)
  have c: "handleAsyncOperation e
        (settled (Return (formatListMarkdown title [] formatItem emptyMessage))) operationName w
        = (Return \<lparr>content = [\<lparr>content_type = ''text'',
                                content_text = formatListMarkdown title [] formatItem emptyMessage\<rparr>],
                   isError = False\<rparr>, w)"
    by (simp add: handleAsyncOperation_cases settled_def)
  show ?thesis
    using a b c by simp
qed

theorem formatListMarkdown_count_and_empty_witness:
  "prefix (''### Reminders (Total: 3)'' @ newline)
          (formatListMarkdown ''Reminders'' [1, 2, 3 :: nat]
             (\<lambda>n. [''- item'']) ''none'')
   \<and> formatListMarkdown ''Reminders'' ([] :: nat list) (\<lambda>n. [''- item''])
        ''No reminders found matching the criteria.''
        = ''### Reminders (Total: 0)'' @ newline @ newline @ ''No reminders found matching the criteria.''"
proof -
  note a = formatListMarkdown_count_and_empty [where title = "''Reminders''"
      and items = "[1, 2, 3 :: nat]"
      and formatItem = "\<lambda>n. [''- item'']" and emptyMessage = "''none''"
      and e = "\<lparr>NODE_ENV = None, DEBUG = None\<rparr>" and operationName = "''read reminders''"
      and w = "0::nat"]
  note b = formatListMarkdown_count_and_empty [where title = "''Reminders''"
      and items = "[] :: nat list"
      and formatItem = "\<lambda>n. [''- item'']"
      and emptyMessage = "''No reminders found matching the criteria.''"
      and e = "\<lparr>NODE_ENV = None, DEBUG = None\<rparr>" and operationName = "''read reminders''"
      and w = "0::nat"]
  have n: "numberToString (length [1, 2, 3 :: nat]) = ''3''"
    by (simp add: numberToString_small digit_def)
  have c1: "prefix (''### Reminders (Total: 3)'' @ newline)
          (formatListMarkdown ''Reminders'' [1, 2, 3 :: nat]
             (\<lambda>n. [''- item'']) ''none'')"
    using a [unfolded n] by simp
  have c2: "formatListMarkdown ''Reminders'' ([] :: nat list) (\<lambda>n. [''- item''])
        ''No reminders found matching the criteria.''
        = ''### Reminders (Total: 0)'' @ newline @ newline @ ''No reminders found matching the criteria.''"
    using b by simp
  show ?thesis
    using c1 c2 by simp
qed

subsection \<open>C8: optional fields of a single reminder\<close>

text \<open>
  C8 (as amended). For every reminder, \<^verbatim>\<open>formatReminderMarkdown\<close> emits the line of an
  optional field (list, id, notes, due date, url) if and only if the field is present
  and not the empty string; an absent or empty field produces no line at all, and the
  number of lines is one (the title line) plus the number of optional fields that are
  present and non-empty.
\<close>

theorem formatReminderMarkdown_optional_lines:
  "((\<exists>line \<in> set (formatReminderMarkdown formatMultilineNotes reminder). prefix ''  - List: '' line)
      \<longleftrightarrow> truthy (r_list reminder))
   \<and> ((\<exists>line \<in> set (formatReminderMarkdown formatMultilineNotes reminder). prefix ''  - ID: '' line)
      \<longleftrightarrow> truthy (r_id reminder))
   \<and> ((\<exists>line \<in> set (formatReminderMarkdown formatMultilineNotes reminder). prefix ''  - Notes: '' line)
      \<longleftrightarrow> truthy (r_notes reminder))
   \<and> ((\<exists>line \<in> set (formatReminderMarkdown formatMultilineNotes reminder). prefix ''  - Due: '' line)
      \<longleftrightarrow> truthy (r_dueDate reminder))
   \<and> ((\<exists>line \<in> set (formatReminderMarkdown formatMultilineNotes reminder). prefix ''  - URL: '' line)
      \<longleftrightarrow> truthy (r_url reminder))
   \<and> length (formatReminderMarkdown formatMultilineNotes reminder)
        = 1 + length (filter truthy
                        [r_list reminder, r_id reminder, r_notes reminder,
                         r_dueDate reminder, r_url reminder])"
proof -
  have l: "(\<exists>line \<in> set (formatReminderMarkdown formatMultilineNotes reminder). prefix ''  - List: '' line)
      \<longleftrightarrow> truthy (r_list reminder)"
    by (auto simp: formatReminderMarkdown_append split: if_splits)
  have i: "(\<exists>line \<in> set (formatReminderMarkdown formatMultilineNotes reminder). prefix ''  - ID: '' line)
      \<longleftrightarrow> truthy (r_id reminder)"
    by (auto simp: formatReminderMarkdown_append split: if_splits)
  have n: "(\<exists>line \<in> set (formatReminderMarkdown formatMultilineNotes reminder). prefix ''  - Notes: '' line)
      \<longleftrightarrow> truthy (r_notes reminder)"
    by (auto simp: formatReminderMarkdown_append split: if_splits)
  have d: "(\<exists>line \<in> set (formatReminderMarkdown formatMultilineNotes reminder). prefix ''  - Due: '' line)
      \<longleftrightarrow> truthy (r_dueDate reminder)"
    by (auto simp: formatReminderMarkdown_append split: if_splits)
  have u: "(\<exists>line \<in> set (formatReminderMarkdown formatMultilineNotes reminder). prefix ''  - URL: '' line)
      \<longleftrightarrow> truthy (r_url reminder)"
    by (auto simp: formatReminderMarkdown_append split: if_splits)
  have len: "length (formatReminderMarkdown formatMultilineNotes reminder)
        = 1 + length (filter truthy
                        [r_list reminder, r_id reminder, r_notes reminder,
                         r_dueDate reminder, r_url reminder])"
    by (simp add: formatReminderMarkdown_append)
  show ?thesis
    using l i n d u len by blast
qed

theorem formatReminderMarkdown_optional_lines_witness:
  "(\<exists>line \<in> set (formatReminderMarkdown (\<lambda>notes. notes)
        \<lparr>r_title = ''Buy groceries'', r_isCompleted = False, r_list = Some ''Personal'',
         r_id = None, r_notes = Some '''', r_dueDate = Some ''2025-11-18 15:00:00'',
         r_url = None\<rparr>). prefix ''  - List: '' line)
   \<and> \<not> (\<exists>line \<in> set (formatReminderMarkdown (\<lambda>notes. notes)
        \<lparr>r_title = ''Buy groceries'', r_isCompleted = False, r_list = Some ''Personal'',
         r_id = None, r_notes = Some '''', r_dueDate = Some ''2025-11-18 15:00:00'',
         r_url = None\<rparr>). prefix ''  - Notes: '' line)
   \<and> length (formatReminderMarkdown (\<lambda>notes. notes)
        \<lparr>r_title = ''Buy groceries'', r_isCompleted = False, r_list = Some ''Personal'',
         r_id = None, r_notes = Some '''', r_dueDate = Some ''2025-11-18 15:00:00'',
         r_url = None\<rparr>) = 3"
proof -
  let ?r = "\<lparr>r_title = ''Buy groceries'', r_isCompleted = False, r_list = Some ''Personal'',
         r_id = None, r_notes = Some '''', r_dueDate = Some ''2025-11-18 15:00:00'',
         r_url = None\<rparr>"
  note t = formatReminderMarkdown_optional_lines [where formatMultilineNotes = "\<lambda>notes. notes"
      and reminder = "?r"]
  have l: "truthy (r_list ?r)"
    by (simp add: truthy_def)
  have n: "\<not> truthy (r_notes ?r)"
    by (simp add: truthy_def)
  have f: "length (filter truthy [r_list ?r, r_id ?r, r_notes ?r, r_dueDate ?r, r_url ?r]) = 2"
    by (simp add: truthy_def)
  from t l have c1: "\<exists>line \<in> set (formatReminderMarkdown (\<lambda>notes. notes) ?r). prefix ''  - List: '' line"
    by blast
  from t n have c2: "\<not> (\<exists>line \<in> set (formatReminderMarkdown (\<lambda>notes. notes) ?r). prefix ''  - Notes: '' line)"
    by blast
  from t have "length (formatReminderMarkdown (\<lambda>notes. notes) ?r)
        = 1 + length (filter truthy [r_list ?r, r_id ?r, r_notes ?r, r_dueDate ?r, r_url ?r])"
    by blast
  then have c3: "length (formatReminderMarkdown (\<lambda>notes. notes) ?r) = 3"
    unfolding f by simp
  show ?thesis
    using c1 c2 c3 by blast
qed

text \<open>
  The claim as stated has a line for every field that is present. The formatter tests
  each field for truthiness, so a field that is present as the empty string gets no
  line: a reminder whose notes are \<^verbatim>\<open>""\<close> is rendered as its title line alone.
\<close>

theorem formatReminderMarkdown_empty_notes_counterexample:
  "r_notes \<lparr>r_title = ''Call Bob'', r_isCompleted = False, r_list = None, r_id = None,
              r_notes = Some '''', r_dueDate = None, r_url = None\<rparr> = Some ''''
   \<and> formatReminderMarkdown (\<lambda>notes. notes)
        \<lparr>r_title = ''Call Bob'', r_isCompleted = False, r_list = None, r_id = None,
         r_notes = Some '''', r_dueDate = None, r_url = None\<rparr>
       = [''- [ ] Call Bob'']"
  by (simp add: formatReminderMarkdown_def Let_def truthy_def)

subsection \<open>C9: re-reading the rendered text of a reminder\<close>

text \<open>
  C9 (as amended). For every reminder with all fields present, the lines that
  \<^verbatim>\<open>formatReminderMarkdown\<close> emits are the title line and, for each optional field that
  is not the empty string, its label followed by the value unaltered (the notes as
  \<^verbatim>\<open>formatMultilineNotes\<close> returns them). When no value contains a line break, and
  the notes, if not empty, are rendered by \<^verbatim>\<open>formatMultilineNotes\<close> without a line
  break and in a way that \<^verbatim>\<open>unformatNotes\<close> undoes, then re-reading the rendered text
  (the \<^verbatim>\<open>### Reminder\<close> heading, an empty line and the emitted lines, joined by line
  breaks) gives back exactly the emitted lines and recovers the reminder: its title,
  its completion flag, and the literal value of its list, id, notes, due date and url.
\<close>

theorem formatReminderMarkdown_round_trip:
  "formatReminderMarkdown formatMultilineNotes
       \<lparr>r_title = title, r_isCompleted = isCompleted, r_list = Some list, r_id = Some ident,
        r_notes = Some notes, r_dueDate = Some dueDate, r_url = Some url\<rparr>
     = (''- '' @ (if isCompleted then ''[x]'' else ''[ ]'') @ '' '' @ title)
       # (if list \<noteq> '''' then [''  - List: '' @ list] else [])
       @ (if ident \<noteq> '''' then [''  - ID: '' @ ident] else [])
       @ (if notes \<noteq> '''' then [''  - Notes: '' @ formatMultilineNotes notes] else [])
       @ (if dueDate \<noteq> '''' then [''  - Due: '' @ dueDate] else [])
       @ (if url \<noteq> '''' then [''  - URL: '' @ url] else [])
   \<and> (CHR 0x0A \<notin> set title \<and> CHR 0x0A \<notin> set list \<and> CHR 0x0A \<notin> set ident
        \<and> (notes \<noteq> '''' \<longrightarrow> CHR 0x0A \<notin> set (formatMultilineNotes notes)
               \<and> unformatNotes (formatMultilineNotes notes) = notes)
        \<and> CHR 0x0A \<notin> set dueDate \<and> CHR 0x0A \<notin> set url
      \<longrightarrow>
        splitLines (join newline ([''### Reminder'', ''''] @ formatReminderMarkdown formatMultilineNotes
            \<lparr>r_title = title, r_isCompleted = isCompleted, r_list = Some list, r_id = Some ident,
             r_notes = Some notes, r_dueDate = Some dueDate, r_url = Some url\<rparr>))
         = [''### Reminder'', ''''] @ formatReminderMarkdown formatMultilineNotes
            \<lparr>r_title = title, r_isCompleted = isCompleted, r_list = Some list, r_id = Some ident,
             r_notes = Some notes, r_dueDate = Some dueDate, r_url = Some url\<rparr>
      \<and> readReminderText unformatNotes
          (join newline ([''### Reminder'', ''''] @ formatReminderMarkdown formatMultilineNotes
            \<lparr>r_title = title, r_isCompleted = isCompleted, r_list = Some list, r_id = Some ident,
             r_notes = Some notes, r_dueDate = Some dueDate, r_url = Some url\<rparr>))
         = Some \<lparr>r_title = title, r_isCompleted = isCompleted, r_list = Some list, r_id = Some ident,
                 r_notes = Some notes, r_dueDate = Some dueDate, r_url = Some url\<rparr>)"
proof (rule conjI)
  show "formatReminderMarkdown formatMultilineNotes
       \<lparr>r_title = title, r_isCompleted = isCompleted, r_list = Some list, r_id = Some ident,
        r_notes = Some notes, r_dueDate = Some dueDate, r_url = Some url\<rparr>
     = (''- '' @ (if isCompleted then ''[x]'' else ''[ ]'') @ '' '' @ title)
       # (if list \<noteq> '''' then [''  - List: '' @ list] else [])
       @ (if ident \<noteq> '''' then [''  - ID: '' @ ident] else [])
       @ (if notes \<noteq> '''' then [''  - Notes: '' @ formatMultilineNotes notes] else [])
       @ (if dueDate \<noteq> '''' then [''  - Due: '' @ dueDate] else [])
       @ (if url \<noteq> '''' then [''  - URL: '' @ url] else [])"
    by (rule formatReminderMarkdown_all_present)
next
  show "CHR 0x0A \<notin> set title \<and> CHR 0x0A \<notin> set list \<and> CHR 0x0A \<notin> set ident
        \<and> (notes \<noteq> '''' \<longrightarrow> CHR 0x0A \<notin> set (formatMultilineNotes notes)
               \<and> unformatNotes (formatMultilineNotes notes) = notes)
        \<and> CHR 0x0A \<notin> set dueDate \<and> CHR 0x0A \<notin> set url
      \<longrightarrow>
        splitLines (join newline ([''### Reminder'', ''''] @ formatReminderMarkdown formatMultilineNotes
            \<lparr>r_title = title, r_isCompleted = isCompleted, r_list = Some list, r_id = Some ident,
             r_notes = Some notes, r_dueDate = Some dueDate, r_url = Some url\<rparr>))
         = [''### Reminder'', ''''] @ formatReminderMarkdown formatMultilineNotes
            \<lparr>r_title = title, r_isCompleted = isCompleted, r_list = Some list, r_id = Some ident,
             r_notes = Some notes, r_dueDate = Some dueDate, r_url = Some url\<rparr>
      \<and> readReminderText unformatNotes
          (join newline ([''### Reminder'', ''''] @ formatReminderMarkdown formatMultilineNotes
            \<lparr>r_title = title, r_isCompleted = isCompleted, r_list = Some list, r_id = Some ident,
             r_notes = Some notes, r_dueDate = Some dueDate, r_url = Some url\<rparr>))
         = Some \<lparr>r_title = title, r_isCompleted = isCompleted, r_list = Some list, r_id = Some ident,
                 r_notes = Some notes, r_dueDate = Some dueDate, r_url = Some url\<rparr>"
  proof (rule impI)
    assume h: "CHR 0x0A \<notin> set title \<and> CHR 0x0A \<notin> set list \<and> CHR 0x0A \<notin> set ident
        \<and> (notes \<noteq> '''' \<longrightarrow> CHR 0x0A \<notin> set (formatMultilineNotes notes)
               \<and> unformatNotes (formatMultilineNotes notes) = notes)
        \<and> CHR 0x0A \<notin> set dueDate \<and> CHR 0x0A \<notin> set url"
    have h1: "CHR 0x0A \<notin> set title"
      using h by (rule conjunct1)
    have h2: "CHR 0x0A \<notin> set list"
      using h by (rule conjunct2 [THEN conjunct1])
    have h3: "CHR 0x0A \<notin> set ident"
      using h by (rule conjunct2 [THEN conjunct2, THEN conjunct1])
    have h4: "notes \<noteq> '''' \<longrightarrow> CHR 0x0A \<notin> set (formatMultilineNotes notes)
               \<and> unformatNotes (formatMultilineNotes notes) = notes"
      using h by (rule conjunct2 [THEN conjunct2, THEN conjunct2, THEN conjunct1])
    have h5: "CHR 0x0A \<notin> set dueDate"
      using h by (rule conjunct2 [THEN conjunct2, THEN conjunct2, THEN conjunct2, THEN conjunct1])
    have h6: "CHR 0x0A \<notin> set url"
      using h by (rule conjunct2 [THEN conjunct2, THEN conjunct2, THEN conjunct2, THEN conjunct2])
    show "splitLines (join newline ([''### Reminder'', ''''] @ formatReminderMarkdown formatMultilineNotes
            \<lparr>r_title = title, r_isCompleted = isCompleted, r_list = Some list, r_id = Some ident,
             r_notes = Some notes, r_dueDate = Some dueDate, r_url = Some url\<rparr>))
         = [''### Reminder'', ''''] @ formatReminderMarkdown formatMultilineNotes
            \<lparr>r_title = title, r_isCompleted = isCompleted, r_list = Some list, r_id = Some ident,
             r_notes = Some notes, r_dueDate = Some dueDate, r_url = Some url\<rparr>
      \<and> readReminderText unformatNotes
          (join newline ([''### Reminder'', ''''] @ formatReminderMarkdown formatMultilineNotes
            \<lparr>r_title = title, r_isCompleted = isCompleted, r_list = Some list, r_id = Some ident,
             r_notes = Some notes, r_dueDate = Some dueDate, r_url = Some url\<rparr>))
         = Some \<lparr>r_title = title, r_isCompleted = isCompleted, r_list = Some list, r_id = Some ident,
                 r_notes = Some notes, r_dueDate = Some dueDate, r_url = Some url\<rparr>"
      using h1 h2 h3 h4 h5 h6 by (rule readReminderText_formatted)
  qed
qed

theorem formatReminderMarkdown_round_trip_witness:
  "readReminderText (\<lambda>notes. notes)
     (join newline ([''### Reminder'', ''''] @ formatReminderMarkdown (\<lambda>notes. notes)
        \<lparr>r_title = ''Buy groceries'', r_isCompleted = True, r_list = Some ''Personal'',
         r_id = Some ''ABC123'', r_notes = Some ''Milk, bread, eggs'',
         r_dueDate = Some ''2025-11-18 15:00:00'', r_url = Some ''https://example.org/list''\<rparr>))
   = Some \<lparr>r_title = ''Buy groceries'', r_isCompleted = True, r_list = Some ''Personal'',
           r_id = Some ''ABC123'', r_notes = Some ''Milk, bread, eggs'',
           r_dueDate = Some ''2025-11-18 15:00:00'', r_url = Some ''https://example.org/list''\<rparr>
   \<and> readReminderText (\<lambda>notes. notes)
     (join newline ([''### Reminder'', ''''] @ formatReminderMarkdown (\<lambda>notes. notes)
        \<lparr>r_title = ''Call Ann'', r_isCompleted = False, r_list = Some ''Work'',
         r_id = Some ''D4'', r_notes = Some '''',
         r_dueDate = Some ''2025-12-01'', r_url = Some ''''\<rparr>))
   = Some \<lparr>r_title = ''Call Ann'', r_isCompleted = False, r_list = Some ''Work'',
           r_id = Some ''D4'', r_notes = Some '''',
           r_dueDate = Some ''2025-12-01'', r_url = Some ''''\<rparr>"
proof -
  have h: "CHR 0x0A \<notin> set ''Buy groceries'' \<and> CHR 0x0A \<notin> set ''Personal''
        \<and> CHR 0x0A \<notin> set ''ABC123''
        \<and> (''Milk, bread, eggs'' \<noteq> '''' \<longrightarrow>
               CHR 0x0A \<notin> set ((\<lambda>notes. notes) ''Milk, bread, eggs'')
               \<and> (\<lambda>notes. notes) ((\<lambda>notes. notes) ''Milk, bread, eggs'') = ''Milk, bread, eggs'')
        \<and> CHR 0x0A \<notin> set ''2025-11-18 15:00:00''
        \<and> CHR 0x0A \<notin> set ''https://example.org/list''"
    by simp
  have k: "CHR 0x0A \<notin> set ''Call Ann'' \<and> CHR 0x0A \<notin> set ''Work''
        \<and> CHR 0x0A \<notin> set ''D4''
        \<and> ('''' \<noteq> '''' \<longrightarrow>
               CHR 0x0A \<notin> set ((\<lambda>notes. notes) '''')
               \<and> (\<lambda>notes. notes) ((\<lambda>notes. notes) '''') = '''')
        \<and> CHR 0x0A \<notin> set ''2025-12-01''
        \<and> CHR 0x0A \<notin> set ''''"
    by simp
  note a = formatReminderMarkdown_round_trip [where formatMultilineNotes = "\<lambda>notes. notes"
      and unformatNotes = "\<lambda>notes. notes" and title = "''Buy groceries''" and isCompleted = True
      and list = "''Personal''" and ident = "''ABC123''"
      and dueDate = "''2025-11-18 15:00:00''" and url = "''https://example.org/list''",
      THEN conjunct2]
  note b = formatReminderMarkdown_round_trip [where formatMultilineNotes = "\<lambda>notes. notes"
      and unformatNotes = "\<lambda>notes. notes" and title = "''Call Ann''" and isCompleted = False
      and list = "''Work''" and ident = "''D4''"
      and dueDate = "''2025-12-01''" and url = "''''",
      THEN conjunct2]
  show ?thesis
    using mp [OF a h, THEN conjunct2] mp [OF b k, THEN conjunct2] by (rule conjI)
qed

text \<open>
  The claim as stated says that re-reading the rendered text recovers each field's
  literal value, for every reminder with all fields present. No reader can do that when
  a value contains a line break, because such a value can imitate the line of another
  field: the two reminders below have all fields present, differ in their list and id,
  and are rendered as the same text, whatever \<^verbatim>\<open>formatMultilineNotes\<close> does. The
  formatter writes every value as it is, without escaping, so this is how the text is
  designed; only the restriction to values without a line break is forced.
\<close>

theorem formatReminderMarkdown_not_injective_counterexample:
  "\<lparr>r_title = ''a'', r_isCompleted = False, r_list = Some (''b'' @ newline @ ''  - ID: c''),
     r_id = Some ''d'', r_notes = Some ''n'', r_dueDate = Some ''2025-11-18'',
     r_url = Some ''https://example.org''\<rparr>
   \<noteq> \<lparr>r_title = ''a'', r_isCompleted = False, r_list = Some ''b'',
       r_id = Some (''c'' @ newline @ ''  - ID: d''), r_notes = Some ''n'',
       r_dueDate = Some ''2025-11-18'', r_url = Some ''https://example.org''\<rparr>
   \<and> (\<forall>formatMultilineNotes.
        join newline ([''### Reminder'', ''''] @ formatReminderMarkdown formatMultilineNotes
          \<lparr>r_title = ''a'', r_isCompleted = False, r_list = Some (''b'' @ newline @ ''  - ID: c''),
           r_id = Some ''d'', r_notes = Some ''n'', r_dueDate = Some ''2025-11-18'',
           r_url = Some ''https://example.org''\<rparr>)
      = join newline ([''### Reminder'', ''''] @ formatReminderMarkdown formatMultilineNotes
          \<lparr>r_title = ''a'', r_isCompleted = False, r_list = Some ''b'',
           r_id = Some (''c'' @ newline @ ''  - ID: d''), r_notes = Some ''n'',
           r_dueDate = Some ''2025-11-18'', r_url = Some ''https://example.org''\<rparr>))"
  by (simp add: formatReminderMarkdown_def Let_def truthy_def interpolate_def newline_def)

subsection \<open>C10: the read handler routes on the raw id\<close>

text \<open>
  C10. In \<^verbatim>\<open>handleReadReminders\<close>, validation of the arguments (without
  \<^verbatim>\<open>action\<close>) runs first: when it throws, the result is the error result of the
  thrown value and the repository is not called. When it accepts, the path is chosen by
  the truthiness of the raw \<^verbatim>\<open>args.id\<close>: a truthy id is looked up with
  \<^verbatim>\<open>findReminderById\<close>, which receives the raw value (the validated arguments play
  no part in the result); an absent or empty id goes to \<^verbatim>\<open>findReminders\<close> with the
  validated filters, and the result is the formatted list.
\<close>

theorem handleReadReminders_routes_on_raw_id:
  "(extractAndValidateArgs validateInput (Some args) ReadRemindersSchema = Throw error \<longrightarrow>
      handleReadReminders validateInput findReminderById findReminders formatMultilineNotes e args w
        = (Return \<lparr>content = [\<lparr>content_type = ''text'',
                                content_text = createErrorMessage e ''read reminders'' error\<rparr>],
                   isError = True\<rparr>, w))
   \<and> (extractAndValidateArgs validateInput (Some args) ReadRemindersSchema = Return validatedArgs
        \<and> jsTruthy (args ''id'') \<longrightarrow>
      handleReadReminders validateInput findReminderById findReminders formatMultilineNotes e args w
        = handleAsyncOperation e
            (await (findReminderById (args ''id''))
               (\<lambda>reminder. settled (Return (join newline
                  ([''### Reminder'', ''''] @ formatReminderMarkdown formatMultilineNotes reminder)))))
            ''read reminders'' w)
   \<and> (extractAndValidateArgs validateInput (Some args) ReadRemindersSchema = Return validatedArgs
        \<and> \<not> jsTruthy (args ''id'') \<longrightarrow>
      handleReadReminders validateInput findReminderById findReminders formatMultilineNotes e args w
        = handleAsyncOperation e
            (await (findReminders
                      (Map.empty(''list'' := validatedArgs ''filterList'',
                                 ''showCompleted'' := validatedArgs ''showCompleted'',
                                 ''search'' := validatedArgs ''search'',
                                 ''dueWithin'' := validatedArgs ''dueWithin'')))
               (\<lambda>reminders. settled (Return (formatListMarkdown ''Reminders'' reminders
                                (formatReminderMarkdown formatMultilineNotes)
                                ''No reminders found matching the criteria.''))))
            ''read reminders'' w)
   \<and> \<not> jsTruthy None \<and> \<not> jsTruthy (Some (JString ''''))"
proof (intro conjI impI)
  assume "extractAndValidateArgs validateInput (Some args) ReadRemindersSchema = Throw error"
  then show "handleReadReminders validateInput findReminderById findReminders formatMultilineNotes e args w
        = (Return \<lparr>content = [\<lparr>content_type = ''text'',
                                content_text = createErrorMessage e ''read reminders'' error\<rparr>],
                   isError = True\<rparr>, w)"
    by (rule handleReadReminders_rejected)
next
  assume "extractAndValidateArgs validateInput (Some args) ReadRemindersSchema = Return validatedArgs
        \<and> jsTruthy (args ''id'')"
  then show "handleReadReminders validateInput findReminderById findReminders formatMultilineNotes e args w
        = handleAsyncOperation e
            (await (findReminderById (args ''id''))
               (\<lambda>reminder. settled (Return (join newline
                  ([''### Reminder'', ''''] @ formatReminderMarkdown formatMultilineNotes reminder)))))
            ''read reminders'' w"
    by (simp add: handleReadReminders_by_id)
next
  assume "extractAndValidateArgs validateInput (Some args) ReadRemindersSchema = Return validatedArgs
        \<and> \<not> jsTruthy (args ''id'')"
  then show "handleReadReminders validateInput findReminderById findReminders formatMultilineNotes e args w
        = handleAsyncOperation e
            (await (findReminders
                      (Map.empty(''list'' := validatedArgs ''filterList'',
                                 ''showCompleted'' := validatedArgs ''showCompleted'',
                                 ''search'' := validatedArgs ''search'',
                                 ''dueWithin'' := validatedArgs ''dueWithin'')))
               (\<lambda>reminders. settled (Return (formatListMarkdown ''Reminders'' reminders
                                (formatReminderMarkdown formatMultilineNotes)
                                ''No reminders found matching the criteria.''))))
            ''read reminders'' w"
    by (simp add: handleReadReminders_by_filter)
next
  show "\<not> jsTruthy None"
    by (simp add: jsTruthy_def)
next
  show "\<not> jsTruthy (Some (JString ''''))"
    by (simp add: jsTruthy_def)
qed

theorem handleReadReminders_routes_on_raw_id_witness:
  "handleReadReminders
      (\<lambda>schema input. if input ''search'' = Some (JBoolean True)
                       then Throw (ErrorObject ValidationError ''search: Expected string'')
                       else Return Map.empty)
      (\<lambda>ident. settled (if ident = Some (JString ''ABC123'')
                         then Return \<lparr>r_title = ''Buy milk'', r_isCompleted = False, r_list = None,
                                      r_id = Some ''ABC123'', r_notes = None, r_dueDate = None,
                                      r_url = None\<rparr>
                         else Throw (ErrorObject NotFoundError ''Reminder not found'')))
      (\<lambda>filters. settled (Return [])) (\<lambda>notes. notes) \<lparr>NODE_ENV = None, DEBUG = None\<rparr>
      [''id'' \<mapsto> JString ''ABC123'', ''search'' \<mapsto> JBoolean True] (0::nat)
     = (Return \<lparr>content = [\<lparr>content_type = ''text'', content_text = ''search: Expected string''\<rparr>],
                isError = True\<rparr>, 0)
   \<and> handleReadReminders
      (\<lambda>schema input. if input ''search'' = Some (JBoolean True)
                       then Throw (ErrorObject ValidationError ''search: Expected string'')
                       else Return Map.empty)
      (\<lambda>ident. settled (if ident = Some (JString ''ABC123'')
                         then Return \<lparr>r_title = ''Buy milk'', r_isCompleted = False, r_list = None,
                                      r_id = Some ''ABC123'', r_notes = None, r_dueDate = None,
                                      r_url = None\<rparr>
                         else Throw (ErrorObject NotFoundError ''Reminder not found'')))
      (\<lambda>filters. settled (Return [])) (\<lambda>notes. notes) \<lparr>NODE_ENV = None, DEBUG = None\<rparr>
      [''id'' \<mapsto> JString ''ABC123''] (0::nat)
     = (Return \<lparr>content = [\<lparr>content_type = ''text'',
                             content_text = ''### Reminder'' @ newline @ newline @ ''- [ ] Buy milk''
                                @ newline @ ''  - ID: ABC123''\<rparr>],
                isError = False\<rparr>, 0)
   \<and> handleReadReminders
      (\<lambda>schema input. if input ''search'' = Some (JBoolean True)
                       then Throw (ErrorObject ValidationError ''search: Expected string'')
                       else Return Map.empty)
      (\<lambda>ident. settled (if ident = Some (JString ''ABC123'')
                         then Return \<lparr>r_title = ''Buy milk'', r_isCompleted = False, r_list = None,
                                      r_id = Some ''ABC123'', r_notes = None, r_dueDate = None,
                                      r_url = None\<rparr>
                         else Throw (ErrorObject NotFoundError ''Reminder not found'')))
      (\<lambda>filters. settled (Return [])) (\<lambda>notes. notes) \<lparr>NODE_ENV = None, DEBUG = None\<rparr>
      [''id'' \<mapsto> JString ''''] (0::nat)
     = (Return \<lparr>content = [\<lparr>content_type = ''text'',
                             content_text = ''### Reminders (Total: 0)'' @ newline @ newline
                                @ ''No reminders found matching the criteria.''\<rparr>],
                isError = False\<rparr>, 0)"
proof -
  let ?validate = "\<lambda>(schema::schema) (input::jsobject).
      if input ''search'' = Some (JBoolean True)
      then Throw (ErrorObject ValidationError ''search: Expected string'')
      else Return (Map.empty :: jsobject)"
  let ?byId = "\<lambda>ident. settled (if ident = Some (JString ''ABC123'')
                         then Return \<lparr>r_title = ''Buy milk'', r_isCompleted = False, r_list = None,
                                      r_id = Some ''ABC123'', r_notes = None, r_dueDate = None,
                                      r_url = None\<rparr>
                         else Throw (ErrorObject NotFoundError ''Reminder not found''))
                 :: (reminder, nat) async"
  let ?find = "\<lambda>(filters::jsobject). settled (Return []) :: (reminder list, nat) async"
  let ?env = "\<lparr>NODE_ENV = None, DEBUG = None\<rparr>"
  let ?bad = "[''id'' \<mapsto> JString ''ABC123'', ''search'' \<mapsto> JBoolean True]"
  let ?lookup = "[''id'' \<mapsto> JString ''ABC123'']"
  let ?blank = "[''id'' \<mapsto> JString '''']"
  note a = handleReadReminders_routes_on_raw_id [where validateInput = "?validate"
      and findReminderById = "?byId" and findReminders = "?find"
      and formatMultilineNotes = "\<lambda>notes. notes" and e = "?env" and args = "?bad" and w = "0::nat"
      and error = "ErrorObject ValidationError ''search: Expected string''", THEN conjunct1]
  note b = handleReadReminders_routes_on_raw_id [where validateInput = "?validate"
      and findReminderById = "?byId" and findReminders = "?find"
      and formatMultilineNotes = "\<lambda>notes. notes" and e = "?env" and args = "?lookup" and w = "0::nat"
      and validatedArgs = "Map.empty", THEN conjunct2, THEN conjunct1]
  note c = handleReadReminders_routes_on_raw_id [where validateInput = "?validate"
      and findReminderById = "?byId" and findReminders = "?find"
      and formatMultilineNotes = "\<lambda>notes. notes" and e = "?env" and args = "?blank" and w = "0::nat"
      and validatedArgs = "Map.empty", THEN conjunct2, THEN conjunct2, THEN conjunct1]
  have ha: "extractAndValidateArgs ?validate (Some ?bad) ReadRemindersSchema
              = Throw (ErrorObject ValidationError ''search: Expected string'')"
    by (simp add: extractAndValidateArgs_def)
  have hb: "extractAndValidateArgs ?validate (Some ?lookup) ReadRemindersSchema = Return Map.empty
            \<and> jsTruthy (?lookup ''id'')"
    by (simp add: extractAndValidateArgs_def jsTruthy_def)
  have hc: "extractAndValidateArgs ?validate (Some ?blank) ReadRemindersSchema = Return Map.empty
            \<and> \<not> jsTruthy (?blank ''id'')"
    by (simp add: extractAndValidateArgs_def jsTruthy_def)
  have c1: "handleReadReminders ?validate ?byId ?find (\<lambda>notes. notes) ?env ?bad (0::nat)
     = (Return \<lparr>content = [\<lparr>content_type = ''text'', content_text = ''search: Expected string''\<rparr>],
                isError = True\<rparr>, 0)"
    unfolding mp [OF a ha] by (simp add: createErrorMessage_validation)
  have c2: "handleReadReminders ?validate ?byId ?find (\<lambda>notes. notes) ?env ?lookup (0::nat)
     = (Return \<lparr>content = [\<lparr>content_type = ''text'',
                             content_text = ''### Reminder'' @ newline @ newline @ ''- [ ] Buy milk''
                                @ newline @ ''  - ID: ABC123''\<rparr>],
                isError = False\<rparr>, 0)"
    unfolding mp [OF b hb]
    by (simp add: handleAsyncOperation_cases await_def settled_def formatReminderMarkdown_def
        Let_def truthy_def interpolate_def)
  have c3: "handleReadReminders ?validate ?byId ?find (\<lambda>notes. notes) ?env ?blank (0::nat)
     = (Return \<lparr>content = [\<lparr>content_type = ''text'',
                             content_text = ''### Reminders (Total: 0)'' @ newline @ newline
                                @ ''No reminders found matching the criteria.''\<rparr>],
                isError = False\<rparr>, 0)"
    unfolding mp [OF c hc]
    by (simp add: handleAsyncOperation_cases await_def settled_def formatListMarkdown_empty)
  show ?thesis
    using c1 c2 c3 by (intro conjI)
qed

end
